theory Spec2Isabelle
  imports Main "HOL-Library.Word"
begin

unbundle bit_operations_syntax

section \<open>Domain: the download job\<close>

text \<open>
  Package \<open>domain\<close>. A job is a struct whose fields are mutated in place by its methods;
  here every method takes the job and returns the updated job. \<open>time.Now().UTC()\<close> is
  an argument of the methods that read the clock. Go's \<open>int\<close> is modelled as \<open>int\<close>:
  the methods only compare and store it.
\<close>

datatype JobStatus = JobStatusPending | JobStatusProcessing | JobStatusDone | JobStatusError

type_synonym time = nat

record Job =
  ID :: string
  URL :: string
  Title :: string
  Status :: JobStatus
  FileKey :: string
  FilePath :: string
  DownloadURL :: string
  Progress :: int
  Error :: string
  CreatedAt :: time
  CompletedAt :: "time option"

definition NewJob :: "string \<Rightarrow> string \<Rightarrow> time \<Rightarrow> Job" where
  "NewJob jid url now =
     \<lparr>ID = jid, URL = url, Title = [], Status = JobStatusPending, FileKey = [], FilePath = [],
      DownloadURL = [], Progress = 0, Error = [], CreatedAt = now, CompletedAt = None\<rparr>"

definition MarkProcessing :: "Job \<Rightarrow> Job" where
  "MarkProcessing j = j\<lparr>Status := JobStatusProcessing\<rparr>"

definition MarkDone :: "Job \<Rightarrow> string \<Rightarrow> time \<Rightarrow> Job" where
  "MarkDone j downloadURL now =
     j\<lparr>Status := JobStatusDone, DownloadURL := downloadURL, Progress := 100,
       CompletedAt := Some now\<rparr>"

definition MarkError :: "Job \<Rightarrow> string \<Rightarrow> time \<Rightarrow> Job" where
  "MarkError j err now = j\<lparr>Status := JobStatusError, Error := err, CompletedAt := Some now\<rparr>"

definition UpdateProgress :: "Job \<Rightarrow> int \<Rightarrow> Job" where
  "UpdateProgress j progress =
     (let progress = (if progress < 0 then 0 else progress);
          progress = (if progress > 100 then 100 else progress)
      in j\<lparr>Progress := progress\<rparr>)"

text \<open>The methods of a job as a datatype of calls, and a sequence of calls run in order.\<close>

datatype JobOp =
    OpMarkProcessing
  | OpMarkDone string time
  | OpMarkError string time
  | OpUpdateProgress int

fun apply_JobOp :: "Job \<Rightarrow> JobOp \<Rightarrow> Job" where
  "apply_JobOp j OpMarkProcessing = MarkProcessing j"
| "apply_JobOp j (OpMarkDone u t) = MarkDone j u t"
| "apply_JobOp j (OpMarkError e t) = MarkError j e t"
| "apply_JobOp j (OpUpdateProgress p) = UpdateProgress j p"

definition run_JobOps :: "Job \<Rightarrow> JobOp list \<Rightarrow> Job" where
  "run_JobOps j ops = foldl apply_JobOp j ops"

section \<open>Dispatcher: the bounded job queue\<close>

text \<open>
  Package \<open>queue\<close>. The buffered channel \<open>jobChan\<close> is its list of buffered jobs (oldest
  first), its capacity and whether it was closed. \<open>Enqueue\<close> is a \<open>select\<close> with a
  \<open>default\<close> branch: the send is taken when the buffer has room (no worker is receiving
  in this model), the default branch otherwise, so the call returns in both cases.
  Channel operations are atomic, so parallel calls of \<open>Enqueue\<close> act as some sequence
  of calls; the model runs a sequence.
\<close>

datatype queue_error = ErrQueueFull | ErrDispatcherStopped

record Dispatcher =
  jobChan :: "Job list"
  jobChan_cap :: nat
  jobChan_closed :: bool
  numWorkers :: int
  stopped :: bool

definition NewDispatcher :: "int \<Rightarrow> int \<Rightarrow> Dispatcher" where
  "NewDispatcher nWorkers queueSize =
     (let nWorkers = (if nWorkers < 1 then 1 else nWorkers);
          queueSize = (if queueSize < 1 then 10 else queueSize)
      in \<lparr>jobChan = [], jobChan_cap = nat queueSize, jobChan_closed = False,
          numWorkers = nWorkers, stopped = False\<rparr>)"

definition Enqueue :: "Dispatcher \<Rightarrow> Job \<Rightarrow> queue_error option \<times> Dispatcher" where
  "Enqueue d job =
     (if stopped d then (Some ErrDispatcherStopped, d)
      else if length (jobChan d) < jobChan_cap d
        then (None, d\<lparr>jobChan := jobChan d @ [job]\<rparr>)
        else (Some ErrQueueFull, d))"

definition Stop :: "Dispatcher \<Rightarrow> Dispatcher" where
  "Stop d = (if stopped d then d else d\<lparr>stopped := True, jobChan_closed := True\<rparr>)"

definition QueueSize :: "Dispatcher \<Rightarrow> nat" where
  "QueueSize d = length (jobChan d)"

definition QueueCapacity :: "Dispatcher \<Rightarrow> nat" where
  "QueueCapacity d = jobChan_cap d"

definition IsFull :: "Dispatcher \<Rightarrow> bool" where
  "IsFull d = (length (jobChan d) \<ge> jobChan_cap d)"

definition WorkerCount :: "Dispatcher \<Rightarrow> int" where
  "WorkerCount d = numWorkers d"

text \<open>A sequence of \<open>Enqueue\<close> calls with no worker receiving: the result of each call, in order.\<close>

fun Enqueue_all :: "Dispatcher \<Rightarrow> Job list \<Rightarrow> queue_error option list \<times> Dispatcher" where
  "Enqueue_all d [] = ([], d)"
| "Enqueue_all d (job # jobs) =
     (case Enqueue d job of (r, d') \<Rightarrow>
        (case Enqueue_all d' jobs of (rs, d'') \<Rightarrow> (r # rs, d'')))"

section \<open>SafeDialer: forbidden IP ranges\<close>

text \<open>
  Package \<open>safeclient\<close>, with the parts of Go's \<open>net\<close> package it calls. A \<open>net.IP\<close> is a
  byte slice of length 4 or 16, or nil: \<open>None\<close> is the nil slice. \<open>net.IPv4\<close> builds the
  16-byte IPv4-in-IPv6 form, \<open>To4\<close> reads the 4-byte form back, \<open>CIDRMask\<close> builds a mask
  and \<open>IPNet.Contains\<close> compares under the mask, as in the Go standard library.
\<close>

type_synonym byte = "8 word"
type_synonym IP = "byte list option"

record IPNet =
  net_IP :: IP
  net_Mask :: "byte list option"

definition v4InV6Prefix :: "byte list" where
  "v4InV6Prefix = [0, 0, 0, 0, 0, 0, 0, 0, 0, 0, 0xff, 0xff]"

definition IPv4 :: "byte \<Rightarrow> byte \<Rightarrow> byte \<Rightarrow> byte \<Rightarrow> IP" where
  "IPv4 a b c d = Some (v4InV6Prefix @ [a, b, c, d])"

definition isZeros :: "byte list \<Rightarrow> bool" where
  "isZeros p = list_all (\<lambda>b. b = 0) p"

definition To4 :: "IP \<Rightarrow> IP" where
  "To4 ip =
     (case ip of
        None \<Rightarrow> None
      | Some bs \<Rightarrow>
          if length bs = 4 then Some bs
          else if length bs = 16 \<and> isZeros (take 10 bs) \<and> bs ! 10 = 0xff \<and> bs ! 11 = 0xff
            then Some (drop 12 bs)
            else None)"

text \<open>The loop of \<open>CIDRMask\<close>: \<open>l\<close> bytes left to write, \<open>n\<close> one-bits left.\<close>

fun CIDRMask_bytes :: "nat \<Rightarrow> nat \<Rightarrow> byte list" where
  "CIDRMask_bytes 0 n = []"
| "CIDRMask_bytes (Suc l) n =
     (if n \<ge> 8 then 0xff # CIDRMask_bytes l (n - 8)
      else (NOT (drop_bit n (0xff :: byte))) # CIDRMask_bytes l 0)"

definition CIDRMask :: "int \<Rightarrow> int \<Rightarrow> byte list option" where
  "CIDRMask ones bits =
     (if bits \<noteq> 32 \<and> bits \<noteq> 128 then None
      else if ones < 0 \<or> ones > bits then None
      else Some (CIDRMask_bytes (nat (bits div 8)) (nat ones)))"

definition networkNumberAndMask :: "IPNet \<Rightarrow> (byte list \<times> byte list) option" where
  "networkNumberAndMask n =
     (case (case To4 (net_IP n) of
              Some ip4 \<Rightarrow> Some ip4
            | None \<Rightarrow> (case net_IP n of
                         None \<Rightarrow> None
                       | Some ip \<Rightarrow> if length ip \<noteq> 16 then None else Some ip)) of
        None \<Rightarrow> None
      | Some ip \<Rightarrow>
          (case net_Mask n of
             None \<Rightarrow> None
           | Some m \<Rightarrow>
               if length m = 4 then (if length ip \<noteq> 4 then None else Some (ip, m))
               else if length m = 16 then (if length ip = 4 then Some (ip, drop 12 m) else Some (ip, m))
               else None))"

definition Contains :: "IPNet \<Rightarrow> IP \<Rightarrow> bool" where
  "Contains n ip =
     (case networkNumberAndMask n of
        None \<Rightarrow> False
      | Some (nn, m) \<Rightarrow>
          (case (case To4 ip of Some x \<Rightarrow> Some x | None \<Rightarrow> ip) of
             None \<Rightarrow> False
           | Some bs \<Rightarrow>
               if length bs \<noteq> length nn then False
               else list_all (\<lambda>i. (nn ! i) AND (m ! i) = (bs ! i) AND (m ! i)) [0 ..< length bs]))"

text \<open>
  \<open>net.ParseIP\<close> is only called on literals in this package; \<open>IPv6_groups\<close> gives the
  16 bytes of an IPv6 address from its eight 16-bit groups, which is what \<open>ParseIP\<close>
  returns for the literals below.
\<close>

definition IPv6_groups :: "nat list \<Rightarrow> IP" where
  "IPv6_groups gs = Some (concat (map (\<lambda>g. [of_nat (g div 256), of_nat (g mod 256)]) gs))"

definition forbiddenIPRanges :: "IPNet list" where
  "forbiddenIPRanges =
     [\<lparr>net_IP = IPv4 10 0 0 0, net_Mask = CIDRMask 8 32\<rparr>,
      \<lparr>net_IP = IPv4 172 16 0 0, net_Mask = CIDRMask 12 32\<rparr>,
      \<lparr>net_IP = IPv4 192 168 0 0, net_Mask = CIDRMask 16 32\<rparr>,
      \<lparr>net_IP = IPv4 127 0 0 0, net_Mask = CIDRMask 8 32\<rparr>,
      \<lparr>net_IP = IPv4 169 254 0 0, net_Mask = CIDRMask 16 32\<rparr>,
      \<lparr>net_IP = IPv4 224 0 0 0, net_Mask = CIDRMask 4 32\<rparr>,
      \<lparr>net_IP = IPv4 255 255 255 255, net_Mask = CIDRMask 32 32\<rparr>,
      \<lparr>net_IP = IPv4 100 64 0 0, net_Mask = CIDRMask 10 32\<rparr>,
      \<lparr>net_IP = IPv4 0 0 0 0, net_Mask = CIDRMask 8 32\<rparr>,
      \<lparr>net_IP = IPv4 192 0 2 0, net_Mask = CIDRMask 24 32\<rparr>,
      \<lparr>net_IP = IPv4 198 51 100 0, net_Mask = CIDRMask 24 32\<rparr>,
      \<lparr>net_IP = IPv4 203 0 113 0, net_Mask = CIDRMask 24 32\<rparr>,
      \<lparr>net_IP = IPv4 169 254 169 254, net_Mask = CIDRMask 32 32\<rparr>]"

definition forbiddenIPv6Ranges :: "IPNet list" where
  "forbiddenIPv6Ranges =
     [\<lparr>net_IP = IPv6_groups [0, 0, 0, 0, 0, 0, 0, 1], net_Mask = CIDRMask 128 128\<rparr>,
      \<lparr>net_IP = IPv6_groups [0, 0, 0, 0, 0, 0, 0, 0], net_Mask = CIDRMask 128 128\<rparr>,
      \<lparr>net_IP = IPv6_groups [0xfc00, 0, 0, 0, 0, 0, 0, 0], net_Mask = CIDRMask 7 128\<rparr>,
      \<lparr>net_IP = IPv6_groups [0xfe80, 0, 0, 0, 0, 0, 0, 0], net_Mask = CIDRMask 10 128\<rparr>,
      \<lparr>net_IP = IPv6_groups [0xfec0, 0, 0, 0, 0, 0, 0, 0], net_Mask = CIDRMask 10 128\<rparr>,
      \<lparr>net_IP = IPv6_groups [0xff00, 0, 0, 0, 0, 0, 0, 0], net_Mask = CIDRMask 8 128\<rparr>,
      \<lparr>net_IP = IPv6_groups [0x2001, 0xdb8, 0, 0, 0, 0, 0, 0], net_Mask = CIDRMask 32 128\<rparr>]"

definition isForbiddenIP :: "IP \<Rightarrow> bool" where
  "isForbiddenIP ip0 =
     (case ip0 of
        None \<Rightarrow> True
      | Some _ \<Rightarrow>
          (let ip = (case To4 ip0 of Some ipv4 \<Rightarrow> Some ipv4 | None \<Rightarrow> ip0)
           in if To4 ip \<noteq> None
                then list_ex (\<lambda>network. Contains network ip) forbiddenIPRanges
                else list_ex (\<lambda>network. Contains network ip) forbiddenIPv6Ranges))"

section \<open>Strings and paths of the Go library\<close>

text \<open>
  A Go string is a sequence of bytes: \<open>string\<close> here. An \<open>error\<close> is its message,
  as \<open>err.Error()\<close> returns it; a function that returns \<open>(value, error)\<close> returns a
  sum, \<open>Inl\<close> the error, and one that returns only an \<open>error\<close> returns an option,
  \<open>None\<close> for \<open>nil\<close>.
\<close>

type_synonym error = string

definition HasPrefix :: "string \<Rightarrow> string \<Rightarrow> bool" where
  "HasPrefix s pre = (take (length pre) s = pre)"

definition HasSuffix :: "string \<Rightarrow> string \<Rightarrow> bool" where
  "HasSuffix s suf = (length suf \<le> length s \<and> drop (length s - length suf) s = suf)"

definition TrimPrefix :: "string \<Rightarrow> string \<Rightarrow> string" where
  "TrimPrefix s pre = (if HasPrefix s pre then drop (length pre) s else s)"

text \<open>\<open>strings.Index\<close>: the position of the first occurrence of \<open>sub\<close>, \<open>None\<close> for -1.\<close>

fun Index :: "string \<Rightarrow> string \<Rightarrow> nat option" where
  "Index [] sub = (if sub = [] then Some 0 else None)"
| "Index (c # cs) sub =
     (if HasPrefix (c # cs) sub then Some 0 else map_option Suc (Index cs sub))"

definition strings_Contains :: "string \<Rightarrow> string \<Rightarrow> bool" where
  "strings_Contains s sub = (Index s sub \<noteq> None)"

text \<open>\<open>strings.Split\<close> with a one-byte separator: the pieces between the separators.\<close>

fun Split :: "string \<Rightarrow> char \<Rightarrow> string list" where
  "Split [] sep = [[]]"
| "Split (c # cs) sep =
     (if c = sep then [] # Split cs sep
      else (case Split cs sep of [] \<Rightarrow> [[c]] | p # ps \<Rightarrow> (c # p) # ps))"

text \<open>\<open>strings.Join\<close>.\<close>

fun Join :: "string list \<Rightarrow> string \<Rightarrow> string" where
  "Join [] sep = []"
| "Join [e] sep = e"
| "Join (e # es) sep = e @ sep @ Join es sep"

text \<open>
  \<open>strings.TrimSpace\<close> removes the leading and trailing white space of Unicode: the six
  ASCII bytes, and the UTF-8 encodings of U+0085, U+00A0, U+1680, U+2000 to U+200A,
  U+2028, U+2029, U+202F, U+205F and U+3000.
\<close>

definition asciiSpace :: "char \<Rightarrow> bool" where
  "asciiSpace c = (c \<in> set [CHR 0x09, CHR 0x0A, CHR 0x0B, CHR 0x0C, CHR 0x0D, CHR '' ''])"

definition unicodeSpaces :: "string list" where
  "unicodeSpaces =
     [[CHR 0xC2, CHR 0x85], [CHR 0xC2, CHR 0xA0], [CHR 0xE1, CHR 0x9A, CHR 0x80]]
     @ map (\<lambda>b. [CHR 0xE2, CHR 0x80, b])
         [CHR 0x80, CHR 0x81, CHR 0x82, CHR 0x83, CHR 0x84, CHR 0x85, CHR 0x86, CHR 0x87,
          CHR 0x88, CHR 0x89, CHR 0x8A]
     @ [[CHR 0xE2, CHR 0x80, CHR 0xA8], [CHR 0xE2, CHR 0x80, CHR 0xA9],
        [CHR 0xE2, CHR 0x80, CHR 0xAF], [CHR 0xE2, CHR 0x81, CHR 0x9F],
        [CHR 0xE3, CHR 0x80, CHR 0x80]]"

text \<open>The length in bytes of the white-space rune at the head of a string, 0 when there is none.\<close>

definition leadingSpace :: "string \<Rightarrow> nat" where
  "leadingSpace s =
     (case s of
        [] \<Rightarrow> 0
      | c # _ \<Rightarrow>
          if asciiSpace c then 1
          else (case filter (HasPrefix s) unicodeSpaces of [] \<Rightarrow> 0 | w # _ \<Rightarrow> length w))"

definition trailingSpace :: "string \<Rightarrow> nat" where
  "trailingSpace s =
     (if s = [] then 0
      else if asciiSpace (last s) then 1
      else (case filter (HasSuffix s) unicodeSpaces of [] \<Rightarrow> 0 | w # _ \<Rightarrow> length w))"

function TrimLeftSpace :: "string \<Rightarrow> string" where
  "TrimLeftSpace s = (if leadingSpace s = 0 then s else TrimLeftSpace (drop (leadingSpace s) s))"
  by pat_completeness auto
termination
proof (relation "measure length")
  show "wf (measure length)" by simp
next
  fix s :: string
  assume "leadingSpace s \<noteq> 0"
  then have "s \<noteq> []" by (auto simp: leadingSpace_def)
  with \<open>leadingSpace s \<noteq> 0\<close> show "(drop (leadingSpace s) s, s) \<in> measure length"
    by simp
qed

function TrimRightSpace :: "string \<Rightarrow> string" where
  "TrimRightSpace s =
     (if trailingSpace s = 0 then s
      else TrimRightSpace (take (length s - trailingSpace s) s))"
  by pat_completeness auto
termination
proof (relation "measure length")
  show "wf (measure length)" by simp
next
  fix s :: string
  assume "trailingSpace s \<noteq> 0"
  then have "s \<noteq> []" by (auto simp: trailingSpace_def)
  with \<open>trailingSpace s \<noteq> 0\<close> show "(take (length s - trailingSpace s) s, s) \<in> measure length"
    by simp
qed

definition TrimSpace :: "string \<Rightarrow> string" where
  "TrimSpace s = TrimRightSpace (TrimLeftSpace s)"

text \<open>
  Package \<open>path/filepath\<close> on Unix. \<open>Clean\<close> drops empty and \<open>.\<close> elements, removes
  an inner \<open>..\<close> with the element before it, drops \<open>..\<close> at the root, and keeps leading
  \<open>..\<close> of a relative path; \<open>out\<close> is the list of elements written so far, last first.
\<close>

fun Clean_elems :: "bool \<Rightarrow> string list \<Rightarrow> string list \<Rightarrow> string list" where
  "Clean_elems rooted out [] = rev out"
| "Clean_elems rooted out (e # es) =
     (if e = [] \<or> e = ''.'' then Clean_elems rooted out es
      else if e = ''..'' then
        (case out of
           lst # below \<Rightarrow>
             if lst \<noteq> ''..'' then Clean_elems rooted below es
             else if \<not> rooted then Clean_elems rooted (''..'' # out) es
             else Clean_elems rooted out es
         | [] \<Rightarrow>
             if \<not> rooted then Clean_elems rooted [''..''] es
             else Clean_elems rooted out es)
      else Clean_elems rooted (e # out) es)"

definition Clean :: "string \<Rightarrow> string" where
  "Clean path =
     (if path = [] then ''.''
      else (let rooted = (hd path = CHR ''/'');
                out = Join (Clean_elems rooted [] (Split path CHR ''/'')) ''/''
            in if rooted then CHR ''/'' # out
               else if out = [] then ''.'' else out))"

definition filepath_Join :: "string list \<Rightarrow> string" where
  "filepath_Join elem =
     (case dropWhile (\<lambda>e. e = []) elem of
        [] \<Rightarrow> []
      | es \<Rightarrow> Clean (Join es ''/''))"

definition IsAbs :: "string \<Rightarrow> bool" where
  "IsAbs path = HasPrefix path ''/''"

text \<open>\<open>filepath.Abs\<close>; \<open>getwd\<close> is the result of \<open>os.Getwd()\<close>.\<close>

definition Abs :: "error + string \<Rightarrow> string \<Rightarrow> error + string" where
  "Abs getwd path =
     (if IsAbs path then Inr (Clean path)
      else (case getwd of
              Inl err \<Rightarrow> Inl err
            | Inr wd \<Rightarrow> Inr (filepath_Join [wd, path])))"

section \<open>Extractor driver: configuration and cleanup\<close>

text \<open>
  Package \<open>downloader\<close> of the service layer. The file system is a state of any type
  \<open>'fs\<close>; \<open>os.Remove\<close> is a function on it that returns its error and the new state.
\<close>

record Config =
  MaxFileSize :: int
  MaxDuration :: int
  OutputDir :: string
  Timeout :: nat
  YtDlpPath :: string
  FFmpegPath :: string

definition DefaultConfig :: Config where
  "DefaultConfig =
     \<lparr>MaxFileSize = 500 * 1024 * 1024, MaxDuration = 1800, OutputDir = ''./tmp'',
      Timeout = 600, YtDlpPath = ''yt-dlp'', FFmpegPath = ''ffmpeg''\<rparr>"

definition Cleanup ::
  "Config \<Rightarrow> error + string \<Rightarrow> ('fs \<Rightarrow> string \<Rightarrow> error option \<times> 'fs) \<Rightarrow> 'fs \<Rightarrow> string
   \<Rightarrow> error option \<times> 'fs" where
  "Cleanup config getwd os_Remove fs filePath =
     (if filePath = [] then (None, fs)
      else (case Abs getwd filePath of
              Inl err \<Rightarrow> (Some err, fs)
            | Inr absPath \<Rightarrow>
                (case Abs getwd (OutputDir config) of
                   Inl err \<Rightarrow> (Some err, fs)
                 | Inr absOutputDir \<Rightarrow>
                     if \<not> HasPrefix absPath absOutputDir
                       then (Some ''cannot delete file outside output directory'', fs)
                       else os_Remove fs filePath)))"

text \<open>
  A file system for running examples: the set of absolute paths of the files that exist.
  \<open>os.Remove\<close> deletes the file a path names and fails when there is none.
\<close>

definition files_Remove :: "error + string \<Rightarrow> string list \<Rightarrow> string \<Rightarrow> error option \<times> string list" where
  "files_Remove getwd files name =
     (case Abs getwd name of
        Inl err \<Rightarrow> (Some err, files)
      | Inr a \<Rightarrow>
          if a \<in> set files then (None, removeAll a files)
          else (Some (''remove '' @ name @ '': no such file or directory''), files))"

section \<open>Regular expressions of the extractor driver\<close>

text \<open>
  Go's \<open>regexp\<close> returns the leftmost match, and among the matches that start there the
  one a backtracking search finds first. The patterns of this program are sequences of
  single-character classes, each taken once or under \<open>?\<close>, \<open>*\<close> or \<open>+\<close> (all greedy),
  with capturing groups that are not nested; \<open>rmatch\<close> is the backtracking search for
  such a pattern at the head of a string. It returns the captured groups in order.
  While a group is open, \<open>acc\<close> holds its text so far, last byte first.
\<close>

datatype cls = Ch char | Digit | Space | AnyChar | OneOf string

fun in_cls :: "cls \<Rightarrow> char \<Rightarrow> bool" where
  "in_cls (Ch c) x = (x = c)"
| "in_cls Digit x = (x \<in> set ''0123456789'')"
| "in_cls Space x = (x \<in> set [CHR 0x09, CHR 0x0A, CHR 0x0C, CHR 0x0D, CHR '' ''])"
| "in_cls AnyChar x = (x \<noteq> CHR 0x0A)"
| "in_cls (OneOf cs) x = (x \<in> set cs)"

datatype item = One cls | Opt cls | Star cls | Plus cls | Open | Close

definition push :: "char \<Rightarrow> string option \<Rightarrow> string option" where
  "push x acc = map_option (\<lambda>a. x # a) acc"

fun rmatch :: "item list \<Rightarrow> string \<Rightarrow> string option \<Rightarrow> string list \<Rightarrow> string list option" where
  "rmatch [] s acc caps = Some (rev caps)"
| "rmatch (Open # r) s acc caps = rmatch r s (Some []) caps"
| "rmatch (Close # r) s acc caps =
     rmatch r s None ((case acc of Some a \<Rightarrow> rev a | None \<Rightarrow> []) # caps)"
| "rmatch (One c # r) s acc caps =
     (case s of
        [] \<Rightarrow> None
      | x # xs \<Rightarrow> if in_cls c x then rmatch r xs (push x acc) caps else None)"
| "rmatch (Opt c # r) s acc caps =
     (case s of
        [] \<Rightarrow> rmatch r s acc caps
      | x # xs \<Rightarrow>
          if in_cls c x
            then (case rmatch r xs (push x acc) caps of
                    Some m \<Rightarrow> Some m
                  | None \<Rightarrow> rmatch r s acc caps)
            else rmatch r s acc caps)"
| "rmatch (Star c # r) s acc caps =
     (case s of
        [] \<Rightarrow> rmatch r s acc caps
      | x # xs \<Rightarrow>
          if in_cls c x
            then (case rmatch (Star c # r) xs (push x acc) caps of
                    Some m \<Rightarrow> Some m
                  | None \<Rightarrow> rmatch r s acc caps)
            else rmatch r s acc caps)"
| "rmatch (Plus c # r) s acc caps =
     (case s of
        [] \<Rightarrow> None
      | x # xs \<Rightarrow> if in_cls c x then rmatch (Star c # r) xs (push x acc) caps else None)"

text \<open>
  \<open>FindStringSubmatch\<close> tries every start from the left. Go returns the whole match
  followed by the groups, or nil; here the result is the list of groups, so Go's
  \<open>len(matches) > 1\<close> is a result \<open>Some (m1 # _)\<close> and \<open>matches[1]\<close> is \<open>m1\<close>.
\<close>

fun FindStringSubmatch :: "item list \<Rightarrow> string \<Rightarrow> string list option" where
  "FindStringSubmatch re [] = rmatch re [] None []"
| "FindStringSubmatch re (x # xs) =
     (case rmatch re (x # xs) None [] of
        Some m \<Rightarrow> Some m
      | None \<Rightarrow> FindStringSubmatch re xs)"

text \<open>
  \<open>group1\<close> is \<open>matches[1]\<close> under the test \<open>len(matches) > 1\<close>, and \<open>group2\<close> is
  \<open>matches[2]\<close> under the test \<open>len(matches) > 2\<close>, for \<open>matches := re.FindStringSubmatch(s)\<close>.
\<close>

definition group1 :: "item list \<Rightarrow> string \<Rightarrow> string option" where
  "group1 re s = (case FindStringSubmatch re s of Some (m1 # _) \<Rightarrow> Some m1 | _ \<Rightarrow> None)"

definition group2 :: "item list \<Rightarrow> string \<Rightarrow> string option" where
  "group2 re s = (case FindStringSubmatch re s of Some (m1 # m2 # _) \<Rightarrow> Some m2 | _ \<Rightarrow> None)"

definition MatchString :: "item list \<Rightarrow> string \<Rightarrow> bool" where
  "MatchString re s = (FindStringSubmatch re s \<noteq> None)"

definition lit :: "string \<Rightarrow> item list" where
  "lit s = map (\<lambda>c. One (Ch c)) s"

definition dquote :: string where
  "dquote = [CHR 0x22]"

text \<open>\<^verbatim>\<open>\[download\]\s+(\d+\.?\d*)%\<close>\<close>

definition progressRegex :: "item list" where
  "progressRegex =
     lit ''[download]''
     @ [Plus Space, Open, Plus Digit, Opt (Ch CHR ''.''), Star Digit, Close, One (Ch CHR ''%'')]"

text \<open>\<^verbatim>\<open>\[download\] Destination: (.+)\<close>\<close>

definition filenameRegex :: "item list" where
  "filenameRegex = lit ''[download] Destination: '' @ [Open, Plus AnyChar, Close]"

text \<open>\<^verbatim>\<open>\[download\] (.+) has already been downloaded\<close>\<close>

definition alreadyDownloadedRegex :: "item list" where
  "alreadyDownloadedRegex =
     lit ''[download] '' @ [Open, Plus AnyChar, Close] @ lit '' has already been downloaded''"

text \<open>\<^verbatim>\<open>\[Merger\] Merging formats into "(.+)"\<close>\<close>

definition mergerRegex :: "item list" where
  "mergerRegex =
     lit (''[Merger] Merging formats into '' @ dquote) @ [Open, Plus AnyChar, Close] @ lit dquote"

text \<open>\<^verbatim>\<open>\[MoveFiles\] Moving file "(.+)" to "(.+)"\<close>\<close>

definition moveFileRegex :: "item list" where
  "moveFileRegex =
     lit (''[MoveFiles] Moving file '' @ dquote) @ [Open, Plus AnyChar, Close]
     @ lit (dquote @ '' to '' @ dquote) @ [Open, Plus AnyChar, Close] @ lit dquote"

text \<open>\<^verbatim>\<open>\[ffmpeg\] Destination: (.+)\<close>\<close>

definition ffmpegRegex :: "item list" where
  "ffmpegRegex = lit ''[ffmpeg] Destination: '' @ [Open, Plus AnyChar, Close]"

section \<open>Progress percentage: \<open>strconv.ParseFloat\<close> and the conversion to \<open>int\<close>\<close>

text \<open>
  The progress text matched by \<open>progressRegex\<close> is digits, an optional point and more
  digits: the decimal \<open>n / 10^k\<close>. \<open>ParseFloat\<close> rounds it to the nearest float64
  (53-bit significand, ties to even) and fails when the result is out of range; \<open>int(_)\<close>
  drops the fraction. \<open>float64_trunc n d\<close> is that integer for the value \<open>n / d\<close>. A
  float64 of \<open>2^63\<close> or more does not fit Go's \<open>int\<close>: the conversion is then
  implementation-dependent, and the value given here is the one of amd64.
\<close>

fun floor_log2 :: "nat \<Rightarrow> nat" where
  "floor_log2 n = (if n < 2 then 0 else Suc (floor_log2 (n div 2)))"

declare floor_log2.simps [simp del]

text \<open>Rounding \<open>a / b\<close> to the nearest integer, ties to even.\<close>

definition round_half_even :: "nat \<Rightarrow> nat \<Rightarrow> nat" where
  "round_half_even a b =
     (let q = a div b; r = a mod b
      in if 2 * r < b then q
         else if 2 * r > b then q + 1
         else if even q then q else q + 1)"

definition float64_trunc :: "nat \<Rightarrow> nat \<Rightarrow> int option" where
  "float64_trunc n d =
     (if 2 * n < d then Some 0
      else
        (let e = (if n < d then - 1 else int (floor_log2 (n div d)));
             sh = e - 52;
             m = (if sh < 0 then round_half_even (n * 2 ^ nat (- sh)) d
                  else round_half_even n (d * 2 ^ nat sh));
             t = (if sh < 0 then m div 2 ^ nat (- sh) else m * 2 ^ nat sh)
         in if t \<ge> 2 ^ 1024 then None
            else if t < 2 ^ 63 then Some (int t)
            else Some (- (2 ^ 63))))"

definition digits_value :: "string \<Rightarrow> nat" where
  "digits_value ds = foldl (\<lambda>v c. 10 * v + (of_char c - 48)) 0 ds"

definition is_digit :: "char \<Rightarrow> bool" where
  "is_digit c = in_cls Digit c"

text \<open>
  \<open>int(progress)\<close> for \<open>progress, err := strconv.ParseFloat(s, 64)\<close>, and \<open>None\<close> when
  \<open>err\<close> is not nil. The driver calls it only on the group of \<open>progressRegex\<close>; text of
  any other form, which \<open>ParseFloat\<close> may accept, is outside this model and gives \<open>None\<close>.
\<close>

definition ParseFloat_int :: "string \<Rightarrow> int option" where
  "ParseFloat_int s =
     (let d1 = takeWhile is_digit s; rest = dropWhile is_digit s;
          d2 = (case rest of [] \<Rightarrow> [] | c # cs \<Rightarrow> cs)
      in if d1 = [] \<or> (rest \<noteq> [] \<and> hd rest \<noteq> CHR ''.'') \<or> \<not> list_all is_digit d2 then None
         else float64_trunc (digits_value (d1 @ d2)) (10 ^ length d2))"

section \<open>Extractor driver: running the subprocess\<close>

record VideoInfo =
  vi_Title :: string
  vi_Duration :: "64 word"
  vi_Thumbnail :: string
  vi_Filesize :: int
  vi_Filename :: string
  vi_Extractor :: string
  vi_WebpageURL :: string
  vi_Description :: string

text \<open>
  The variables the stdout goroutine of \<open>Download\<close> writes: the metadata, the captured
  artifact path, and the calls of the progress callback in order (its two arguments).
\<close>

record scan =
  videoInfo :: "VideoInfo option"
  downloadedFile :: string
  calls :: "(int \<times> string) list"

text \<open>
  The body of the loop over the lines of stdout. \<open>unmarshal\<close> is \<open>json.Unmarshal\<close> into
  a \<open>VideoInfo\<close> (\<open>None\<close> when it fails); \<open>has_cb\<close> says that \<open>progressCb\<close> is not nil.
\<close>

definition scan_line :: "(string \<Rightarrow> VideoInfo option) \<Rightarrow> bool \<Rightarrow> scan \<Rightarrow> string \<Rightarrow> scan" where
  "scan_line unmarshal has_cb st line =
     (if HasPrefix line ''{'' then
        (case unmarshal line of Some info \<Rightarrow> st\<lparr>videoInfo := Some info\<rparr> | None \<Rightarrow> st)
      else
        (let st = (case group1 progressRegex line of
                     Some m1 \<Rightarrow>
                       (case ParseFloat_int m1 of
                          Some progress \<Rightarrow>
                            if has_cb then st\<lparr>calls := calls st @ [(progress, ''downloading'')]\<rparr>
                            else st
                        | None \<Rightarrow> st)
                   | None \<Rightarrow> st);
             st = (case group1 filenameRegex line of
                     Some m1 \<Rightarrow> st\<lparr>downloadedFile := TrimSpace m1\<rparr>
                   | None \<Rightarrow> st);
             st = (case group1 alreadyDownloadedRegex line of
                     Some m1 \<Rightarrow> st\<lparr>downloadedFile := TrimSpace m1\<rparr>
                   | None \<Rightarrow> st);
             st = (case group1 mergerRegex line of
                     Some m1 \<Rightarrow> st\<lparr>downloadedFile := TrimSpace m1\<rparr>
                   | None \<Rightarrow> st);
             st = (case group1 ffmpegRegex line of
                     Some m1 \<Rightarrow> st\<lparr>downloadedFile := TrimSpace m1\<rparr>
                   | None \<Rightarrow> st);
             st = (case group2 moveFileRegex line of
                     Some m2 \<Rightarrow> st\<lparr>downloadedFile := TrimSpace m2\<rparr>
                   | None \<Rightarrow> st)
         in st))"

definition scan_stdout :: "(string \<Rightarrow> VideoInfo option) \<Rightarrow> bool \<Rightarrow> scan \<Rightarrow> string list \<Rightarrow> scan" where
  "scan_stdout unmarshal has_cb st lines = foldl (scan_line unmarshal has_cb) st lines"

datatype ctx_error = DeadlineExceeded | Canceled

text \<open>The error returned when \<open>cmd.Wait()\<close> fails: the context first, then the text of stderr.\<close>

definition wait_failure :: "ctx_error option \<Rightarrow> string \<Rightarrow> error" where
  "wait_failure ctxErr errOutput =
     (if ctxErr = Some DeadlineExceeded then ''download timed out''
      else if ctxErr = Some Canceled then ''download was canceled''
      else if strings_Contains errOutput ''Video unavailable'' then ''video is unavailable or private''
      else if strings_Contains errOutput ''is not a valid URL'' then ''invalid video URL''
      else ''yt-dlp error: '' @ errOutput)"

text \<open>
  What one run of the subprocess and the system give to \<open>Download\<close>: the errors of the
  set-up calls, the clock, the lines the two scanners read, the result of \<open>cmd.Wait()\<close>,
  \<open>ctx.Err()\<close> after it, \<open>filepath.Glob\<close>, \<open>os.Stat\<close> and \<open>json.Unmarshal\<close>.
\<close>

record run =
  MkdirAll_err :: "error option"
  UnixNano :: int
  StdoutPipe_err :: "error option"
  StderrPipe_err :: "error option"
  Start_err :: "error option"
  stdout_lines :: "string list"
  stderr_lines :: "string list"
  Wait_err :: "error option"
  ctx_Err :: "ctx_error option"
  Glob :: "string \<Rightarrow> string list"
  Stat_err :: "string \<Rightarrow> error option"
  Unmarshal :: "string \<Rightarrow> VideoInfo option"

text \<open>\<open>fmt.Sprintf("%d", n)\<close>.\<close>

fun nat_digits :: "nat \<Rightarrow> string" where
  "nat_digits n =
     (if n < 10 then [''0123456789'' ! n]
      else nat_digits (n div 10) @ [''0123456789'' ! (n mod 10)])"

declare nat_digits.simps [simp del]

definition Itoa :: "int \<Rightarrow> string" where
  "Itoa n = (if n < 0 then CHR ''-'' # nat_digits (nat (- n)) else nat_digits (nat n))"

text \<open>
  \<open>Download\<close> returns the calls it made of the progress callback and its result: an
  error, or the metadata (nil when none was parsed) and the path of the artifact.
\<close>

definition Download ::
  "Config \<Rightarrow> run \<Rightarrow> bool \<Rightarrow> (int \<times> string) list \<times> (error + VideoInfo option \<times> string)" where
  "Download config env has_cb =
     (case MkdirAll_err env of
        Some err \<Rightarrow> ([], Inl (''failed to create output directory: '' @ err))
      | None \<Rightarrow>
     (case StdoutPipe_err env of
        Some err \<Rightarrow> ([], Inl (''failed to create stdout pipe: '' @ err))
      | None \<Rightarrow>
     (case StderrPipe_err env of
        Some err \<Rightarrow> ([], Inl (''failed to create stderr pipe: '' @ err))
      | None \<Rightarrow>
     (case Start_err env of
        Some err \<Rightarrow> ([], Inl (''failed to start yt-dlp: '' @ err))
      | None \<Rightarrow>
        (let st = scan_stdout (Unmarshal env) has_cb
                    \<lparr>videoInfo = None, downloadedFile = [], calls = []\<rparr> (stdout_lines env);
             stderrOutput = concat (map (\<lambda>l. l @ [CHR 0x0A]) (stderr_lines env))
         in case Wait_err env of
              Some err \<Rightarrow> (calls st, Inl (wait_failure (ctx_Err env) stderrOutput))
            | None \<Rightarrow>
                (let cs = calls st @ (if has_cb then [(100, ''complete'')] else []);
                     file = downloadedFile st;
                     file = (case videoInfo st of
                               Some info \<Rightarrow>
                                 if file = [] \<and> vi_Filename info \<noteq> []
                                   then filepath_Join [OutputDir config, vi_Filename info]
                                   else file
                             | None \<Rightarrow> file);
                     file = (if file = []
                               then (case Glob env (filepath_Join
                                            [OutputDir config, Itoa (UnixNano env) @ ''_*'']) of
                                       m # _ \<Rightarrow> m
                                     | [] \<Rightarrow> file)
                               else file)
                 in if file = [] then (cs, Inl ''could not determine downloaded file path'')
                    else (case Stat_err env file of
                            Some err \<Rightarrow> (cs, Inl (''downloaded file not found: '' @ err))
                          | None \<Rightarrow> (cs, Inr (videoInfo st, file)))))))))"

section \<open>The simple driver and the simple handler's error mapping\<close>

text \<open>
  Package \<open>downloader\<close> of the simple wiring runs the extractor with \<open>CombinedOutput\<close>;
  \<open>simple_Download_failure\<close> is its error when the command fails, from \<open>ctx.Err()\<close> and
  the combined output.
\<close>

definition truncate_string :: "string \<Rightarrow> nat \<Rightarrow> string" where
  "truncate_string s maxLen = (if length s \<le> maxLen then s else take maxLen s @ ''...'')"

definition simple_Download_failure :: "ctx_error option \<Rightarrow> string \<Rightarrow> error" where
  "simple_Download_failure ctxErr outputStr =
     (if strings_Contains outputStr ''Video unavailable'' then ''video is unavailable or private''
      else if strings_Contains outputStr ''duration<'' \<and> strings_Contains outputStr ''skipping''
        then ''video exceeds maximum duration limit''
      else if strings_Contains outputStr ''filesize'' then ''video exceeds maximum file size limit''
      else if ctxErr = Some DeadlineExceeded then ''download timed out''
      else ''yt-dlp error: '' @ truncate_string outputStr 200)"

text \<open>\<open>handleDownloadError\<close> of the simple handler: the code of the HTTP error response.\<close>

definition handleDownloadError :: "error \<Rightarrow> string" where
  "handleDownloadError msg =
     (if strings_Contains msg ''duration'' then ''DURATION_EXCEEDED''
      else if strings_Contains msg ''filesize'' \<or> strings_Contains msg ''file size''
        then ''SIZE_EXCEEDED''
      else if strings_Contains msg ''unavailable'' \<or> strings_Contains msg ''private''
        then ''VIDEO_UNAVAILABLE''
      else if strings_Contains msg ''timed out'' then ''TIMEOUT''
      else ''DOWNLOAD_ERROR'')"

section \<open>Job processor\<close>

text \<open>
  \<open>ProcessJob\<close> of the HTTP package, run by a dispatcher worker on one job. The object
  store client is \<open>None\<close> when \<open>r2Client\<close> is nil. The repository writes are
  write-through and their errors are only logged, so the model returns them as a list,
  oldest first, beside the final job; the removal of the local file after the upload
  does not touch the job and is left out.
\<close>

record r2Client =
  Upload :: "string \<Rightarrow> string \<Rightarrow> error option"
  GeneratePresignedURL :: "string \<Rightarrow> nat \<Rightarrow> error + string"

datatype repo_write = RepoUpdate Job | RepoUpdateProgress string int

text \<open>The progress callback of \<open>ProcessJob\<close>, applied to the calls \<open>Download\<close> makes.\<close>

fun progressCb :: "Job \<times> repo_write list \<Rightarrow> (int \<times> string) list \<Rightarrow> Job \<times> repo_write list" where
  "progressCb (job, log) [] = (job, log)"
| "progressCb (job, log) ((progress, status) # cs) =
     progressCb (UpdateProgress job progress, log @ [RepoUpdateProgress (ID job) progress]) cs"

definition ProcessJob ::
  "Config \<Rightarrow> run \<Rightarrow> r2Client option \<Rightarrow> time \<Rightarrow> Job \<Rightarrow> Job \<times> repo_write list" where
  "ProcessJob config env r2 now job0 =
     (let job = MarkProcessing job0;
          log = [RepoUpdate job];
          (cs, res) = Download config env True;
          (job, log) = progressCb (job, log) cs
      in case res of
           Inl err \<Rightarrow>
             (let job = MarkError job err now in (job, log @ [RepoUpdate job]))
         | Inr (vinfo, filePath) \<Rightarrow>
             (let job = (case vinfo of
                           Some info \<Rightarrow> job\<lparr>Title := vi_Title info\<rparr>
                         | None \<Rightarrow> job);
                  job = job\<lparr>FilePath := filePath\<rparr>
              in case r2 of
                   Some client \<Rightarrow>
                     (let fileKey = ID job @ ''/'' @ Title job
                      in case Upload client filePath fileKey of
                           Some err \<Rightarrow>
                             (let job = MarkError job ''failed to upload file'' now
                              in (job, log @ [RepoUpdate job]))
                         | None \<Rightarrow>
                             (let job = job\<lparr>FileKey := fileKey\<rparr>
                              in case GeneratePresignedURL client fileKey 15 of
                                   Inl err \<Rightarrow>
                                     (let job = MarkError job ''failed to generate download URL'' now
                                      in (job, log @ [RepoUpdate job]))
                                 | Inr downloadURL \<Rightarrow>
                                     (let job = MarkDone job downloadURL now
                                      in (job, log @ [RepoUpdate job]))))
                 | None \<Rightarrow>
                     (let job = MarkDone job filePath now
                      in (job, log @ [RepoUpdate job]))))"

text \<open>
  A run of the extractor for the examples: every set-up call succeeds, the command
  prints the given lines and exits with the given result, no file matches the glob,
  every file exists, and no line parses as metadata.
\<close>

definition plain_run :: "string list \<Rightarrow> string list \<Rightarrow> error option \<Rightarrow> ctx_error option \<Rightarrow> run" where
  "plain_run out err w c =
     \<lparr>MkdirAll_err = None, UnixNano = 1700000000000000000, StdoutPipe_err = None,
      StderrPipe_err = None, Start_err = None, stdout_lines = out, stderr_lines = err,
      Wait_err = w, ctx_Err = c, Glob = (\<lambda>_. []), Stat_err = (\<lambda>_. None),
      Unmarshal = (\<lambda>_. None)\<rparr>"

text \<open>An object store whose upload fails, and one that works, for the examples.\<close>

definition r2_upload_fails :: r2Client where
  "r2_upload_fails =
     \<lparr>Upload = (\<lambda>_ _. Some ''connection reset''),
      GeneratePresignedURL = (\<lambda>key _. Inr (''https://r2.example/'' @ key))\<rparr>"

definition r2_works :: r2Client where
  "r2_works =
     \<lparr>Upload = (\<lambda>_ _. None),
      GeneratePresignedURL = (\<lambda>key _. Inr (''https://r2.example/'' @ key))\<rparr>"

section \<open>What one line of stdout contributes\<close>


definition last_capture :: "string \<Rightarrow> string option" where
  "last_capture line =
     (case group2 moveFileRegex line of
        Some m2 \<Rightarrow> Some (TrimSpace m2)
      | None \<Rightarrow>
     (case group1 ffmpegRegex line of
        Some m1 \<Rightarrow> Some (TrimSpace m1)
      | None \<Rightarrow>
     (case group1 mergerRegex line of
        Some m1 \<Rightarrow> Some (TrimSpace m1)
      | None \<Rightarrow>
     (case group1 alreadyDownloadedRegex line of
        Some m1 \<Rightarrow> Some (TrimSpace m1)
      | None \<Rightarrow>
     (case group1 filenameRegex line of
        Some m1 \<Rightarrow> Some (TrimSpace m1)
      | None \<Rightarrow> None)))))"


definition moveFiles_sep :: string where
  "moveFiles_sep = dquote @ '' to '' @ dquote"


section \<open>URLs\<close>

text \<open>
  The struct \<open>url.URL\<close> of Go's \<open>net/url\<close>; \<open>User\<close> is \<open>None\<close> for a nil \<open>*Userinfo\<close>.
\<close>

record Userinfo =
  username :: string
  password :: string
  passwordSet :: bool

record url =
  Scheme :: string
  Opaque :: string
  User :: "Userinfo option"
  Host :: string
  Path :: string
  RawPath :: string
  OmitHost :: bool
  ForceQuery :: bool
  RawQuery :: string
  Fragment :: string
  RawFragment :: string

text \<open>\<open>strings.LastIndexByte\<close>: the position of the last occurrence of a byte.\<close>

fun LastIndexByte :: "string \<Rightarrow> char \<Rightarrow> nat option" where
  "LastIndexByte [] c = None"
| "LastIndexByte (x # xs) c =
     (case LastIndexByte xs c of
        Some i \<Rightarrow> Some (Suc i)
      | None \<Rightarrow> if x = c then Some 0 else None)"

definition validOptionalPort :: "string \<Rightarrow> bool" where
  "validOptionalPort port =
     (case port of
        [] \<Rightarrow> True
      | c # ds \<Rightarrow> c = CHR '':'' \<and> list_all (\<lambda>b. b \<in> set ''0123456789'') ds)"

text \<open>\<open>URL.Hostname\<close>: the host without a valid port and without the brackets of an IPv6 literal.\<close>

definition Hostname :: "url \<Rightarrow> string" where
  "Hostname u =
     (let host = Host u;
          host = (case LastIndexByte host CHR '':'' of
                    Some colon \<Rightarrow> if validOptionalPort (drop colon host) then take colon host else host
                  | None \<Rightarrow> host)
      in if HasPrefix host ''['' \<and> HasSuffix host '']'' then butlast (tl host) else host)"

section \<open>URL validation and normalization of the job API\<close>

text \<open>
  Package \<open>middleware\<close>. \<open>url.Parse\<close> and \<open>strings.ToLower\<close> are arguments of the
  functions that call them (\<open>url_Parse\<close> gives \<open>None\<close> for an error), and so is
  \<open>URL.String\<close>; the allowlist is the package variable \<open>allowedDomains\<close>, a map that can
  change at run time, and an absent key reads as false.
\<close>

definition ErrEmptyURL :: error where "ErrEmptyURL = ''URL cannot be empty''"
definition ErrInvalidURL :: error where "ErrInvalidURL = ''invalid URL format''"
definition ErrHTTPSRequired :: error where "ErrHTTPSRequired = ''only HTTPS URLs are allowed''"
definition ErrDomainNotAllowed :: error where "ErrDomainNotAllowed = ''domain not in allowlist''"
definition ErrUserInfoPresent :: error where
  "ErrUserInfoPresent = ''URLs with user credentials are not allowed''"

definition allowedDomains :: "string \<rightharpoonup> bool" where
  "allowedDomains = map_of (map (\<lambda>d. (d, True))
     [''youtube.com'', ''www.youtube.com'', ''youtu.be'', ''m.youtube.com'',
      ''twitter.com'', ''www.twitter.com'', ''x.com'', ''www.x.com'',
      ''tiktok.com'', ''www.tiktok.com'', ''vm.tiktok.com'',
      ''instagram.com'', ''www.instagram.com'',
      ''facebook.com'', ''www.facebook.com'', ''fb.watch'',
      ''vimeo.com'', ''www.vimeo.com'', ''player.vimeo.com'',
      ''reddit.com'', ''www.reddit.com'', ''v.redd.it'',
      ''twitch.tv'', ''www.twitch.tv'', ''clips.twitch.tv'',
      ''dailymotion.com'', ''www.dailymotion.com''])"

definition lookup :: "(string \<rightharpoonup> bool) \<Rightarrow> string \<Rightarrow> bool" where
  "lookup m k = (case m k of Some b \<Rightarrow> b | None \<Rightarrow> False)"

text \<open>The parent domain \<open>isDomainAllowed\<close> builds from the last two labels of a host.\<close>

definition parentDomain :: "string list \<Rightarrow> string" where
  "parentDomain parts = parts ! (length parts - 2) @ ''.'' @ parts ! (length parts - 1)"

definition isDomainAllowed :: "(string \<rightharpoonup> bool) \<Rightarrow> string \<Rightarrow> bool" where
  "isDomainAllowed allowed host =
     (if lookup allowed host then True
      else (let parts = Split host CHR ''.''
            in if length parts > 2
                 then (if lookup allowed (parentDomain parts) then True else False)
                 else False))"

definition ValidateURL ::
  "(string \<Rightarrow> url option) \<Rightarrow> (string \<Rightarrow> string) \<Rightarrow> (string \<rightharpoonup> bool) \<Rightarrow> string \<Rightarrow> error option" where
  "ValidateURL url_Parse ToLower allowed rawURL0 =
     (let rawURL = TrimSpace rawURL0
      in if rawURL = [] then Some ErrEmptyURL
         else (case url_Parse rawURL of
                 None \<Rightarrow> Some ErrInvalidURL
               | Some parsedURL \<Rightarrow>
                   if Scheme parsedURL \<noteq> ''https'' \<and> Scheme parsedURL \<noteq> ''http''
                     then Some ErrHTTPSRequired
                   else if User parsedURL \<noteq> None then Some ErrUserInfoPresent
                   else (let host = Hostname parsedURL
                         in if host = [] then Some ErrInvalidURL
                            else (let host = ToLower host
                                  in if \<not> isDomainAllowed allowed host
                                       then Some ErrDomainNotAllowed
                                       else None))))"

definition NormalizeURL ::
  "(string \<Rightarrow> url option) \<Rightarrow> (url \<Rightarrow> string) \<Rightarrow> string \<Rightarrow> string" where
  "NormalizeURL url_Parse url_String rawURL0 =
     (let rawURL = TrimSpace rawURL0
      in case url_Parse rawURL of
           None \<Rightarrow> rawURL
         | Some parsedURL0 \<Rightarrow>
             (let parsedURL = parsedURL0\<lparr>Fragment := []\<rparr>;
                  normalized = url_String parsedURL
              in if length normalized > 0 \<and> last normalized = CHR ''/''
                    \<and> Path parsedURL \<noteq> ''/''
                   then butlast normalized
                   else normalized))"

section \<open>URL validation of the simple handler\<close>

text \<open>Package \<open>handler\<close>: its allowlist is a slice, and its last check is a character class.\<close>

definition handler_allowedDomains :: "string list" where
  "handler_allowedDomains =
     [''youtube.com'', ''youtu.be'', ''www.youtube.com'', ''m.youtube.com'',
      ''tiktok.com'', ''www.tiktok.com'', ''vm.tiktok.com'',
      ''instagram.com'', ''www.instagram.com'',
      ''twitter.com'', ''x.com'', ''www.twitter.com'',
      ''facebook.com'', ''www.facebook.com'', ''fb.watch'',
      ''vimeo.com'', ''www.vimeo.com'',
      ''dailymotion.com'', ''www.dailymotion.com'',
      ''twitch.tv'', ''www.twitch.tv'', ''clips.twitch.tv'',
      ''reddit.com'', ''www.reddit.com'', ''v.redd.it'',
      ''pinterest.com'', ''www.pinterest.com'', ''pin.it'']"

text \<open>The pattern \<^verbatim>\<open>[;&|$\x60\\]\<close>: one byte out of semicolon, ampersand, bar, dollar, backquote, backslash.\<close>

definition suspicious_chars :: string where
  "suspicious_chars = [CHR '';'', CHR ''&'', CHR ''|'', CHR ''$'', CHR 0x60, CHR 0x5C]"

definition suspicious :: "item list" where
  "suspicious = [One (OneOf suspicious_chars)]"

definition Handler_validateURL ::
  "(string \<Rightarrow> url option) \<Rightarrow> (string \<Rightarrow> string) \<Rightarrow> string \<Rightarrow> error option" where
  "Handler_validateURL url_Parse ToLower rawURL =
     (if rawURL = [] then Some ''URL is required''
      else (case url_Parse rawURL of
              None \<Rightarrow> Some ''Invalid URL format''
            | Some parsed \<Rightarrow>
                if Scheme parsed \<noteq> ''http'' \<and> Scheme parsed \<noteq> ''https''
                  then Some ''URL must use http or https''
                else (let host = ToLower (Host parsed);
                          host = TrimPrefix host ''www.'';
                          allowed = list_ex (\<lambda>domain.
                                      (let d = TrimPrefix domain ''www.''
                                       in host = d \<or> HasSuffix host (''.'' @ d)))
                                    handler_allowedDomains
                      in if \<not> allowed then Some ''Domain not supported''
                         else if MatchString suspicious rawURL
                           then Some ''URL contains invalid characters''
                         else None)))"

section \<open>A model of \<open>url.Parse\<close>, \<open>URL.String\<close> and \<open>strings.ToLower\<close> on plain input\<close>

text \<open>
  The examples need values of \<open>url.Parse\<close>, \<open>URL.String\<close> and \<open>strings.ToLower\<close>. The
  following functions compute them, after the code of Go 1.23, for input without
  percent-escapes: a string of ASCII bytes that contains neither \<open>%\<close> nor \<open>[\<close>. There
  \<open>unescape\<close> is the identity, and no host is an IPv6 literal. For other input
  \<open>plain_url_Parse\<close> gives \<open>None\<close> and \<open>ascii_ToLower\<close> leaves the bytes above 127 as
  they are, which need not be what Go does; no statement below uses them there.
\<close>

definition ascii_ToLower :: "string \<Rightarrow> string" where
  "ascii_ToLower s =
     map (\<lambda>c. case map_of (zip ''ABCDEFGHIJKLMNOPQRSTUVWXYZ'' ''abcdefghijklmnopqrstuvwxyz'') c of
                Some l \<Rightarrow> l
              | None \<Rightarrow> c) s"

definition is_alnum :: "char \<Rightarrow> bool" where
  "is_alnum c =
     (let n = (of_char c :: nat)
      in (97 \<le> n \<and> n \<le> 122) \<or> (65 \<le> n \<and> n \<le> 90) \<or> (48 \<le> n \<and> n \<le> 57))"

datatype encoding = encodePath | encodeHost | encodeUserPassword | encodeFragment

definition shouldEscape :: "char \<Rightarrow> encoding \<Rightarrow> bool" where
  "shouldEscape c mode =
     (if is_alnum c then False
      else if mode = encodeHost \<and> c \<in> set (''!$&()*+,;=:[]<>'' @ [CHR 0x27, CHR 0x22]) then False
      else if c \<in> set ''-_.~'' then False
      else if c \<in> set ''$&+,/:;=?@'' then
        (case mode of
           encodePath \<Rightarrow> c = CHR ''?''
         | encodeUserPassword \<Rightarrow> c \<in> set ''@/?:''
         | encodeFragment \<Rightarrow> False
         | encodeHost \<Rightarrow> True)
      else if mode = encodeFragment \<and> c \<in> set ''!()*'' then False
      else True)"

definition upperhex :: string where
  "upperhex = ''0123456789ABCDEF''"

definition escape :: "string \<Rightarrow> encoding \<Rightarrow> string" where
  "escape s mode =
     concat (map (\<lambda>c. if shouldEscape c mode
                        then [CHR ''%'', upperhex ! (of_char c div 16), upperhex ! (of_char c mod 16)]
                        else [c]) s)"

definition validEncoded :: "string \<Rightarrow> encoding \<Rightarrow> bool" where
  "validEncoded s mode =
     list_all (\<lambda>c. c \<in> set (''!$&()*+,;=:@[]%'' @ [CHR 0x27]) \<or> \<not> shouldEscape c mode) s"

definition validUserinfo :: "string \<Rightarrow> bool" where
  "validUserinfo s =
     list_all (\<lambda>r. is_alnum r \<or> r \<in> set (''-._:~!$&()*+,;=%@'' @ [CHR 0x27])) s"

definition stringContainsCTLByte :: "string \<Rightarrow> bool" where
  "stringContainsCTLByte s = list_ex (\<lambda>b. (of_char b :: nat) < 32 \<or> of_char b = (127 :: nat)) s"

text \<open>\<open>strings.Cut\<close> with a one-byte separator: the text before and after its first occurrence.\<close>

definition Cut :: "string \<Rightarrow> char \<Rightarrow> string \<times> string" where
  "Cut s sep = (takeWhile (\<lambda>c. c \<noteq> sep) s, drop 1 (dropWhile (\<lambda>c. c \<noteq> sep) s))"

text \<open>
  \<open>getScheme\<close>: \<open>Inr (scheme, rest)\<close>, or \<open>Inl\<close> for the error "missing protocol scheme";
  \<open>i\<close> is the index of the loop and \<open>s\<close> the bytes from \<open>i\<close> on.
\<close>

fun getScheme_from :: "string \<Rightarrow> nat \<Rightarrow> string \<Rightarrow> error + string \<times> string" where
  "getScheme_from rawURL i [] = Inr ([], rawURL)"
| "getScheme_from rawURL i (c # s) =
     (if (of_char c :: nat) \<in> {97 .. 122} \<union> {65 .. 90} then getScheme_from rawURL (Suc i) s
      else if c \<in> set ''0123456789+-.'' then
        (if i = 0 then Inr ([], rawURL) else getScheme_from rawURL (Suc i) s)
      else if c = CHR '':'' then
        (if i = 0 then Inl ''missing protocol scheme''
         else Inr (take i rawURL, drop (Suc i) rawURL))
      else Inr ([], rawURL))"

definition getScheme :: "string \<Rightarrow> error + string \<times> string" where
  "getScheme rawURL = getScheme_from rawURL 0 rawURL"

definition parseHost :: "string \<Rightarrow> string option" where
  "parseHost host =
     (if (case LastIndexByte host CHR '':'' of
            Some i \<Rightarrow> \<not> validOptionalPort (drop i host)
          | None \<Rightarrow> False) then None
      else if list_ex (\<lambda>c. shouldEscape c encodeHost) host then None
      else Some host)"

definition parseAuthority :: "string \<Rightarrow> (Userinfo option \<times> string) option" where
  "parseAuthority authority =
     (case LastIndexByte authority CHR ''@'' of
        None \<Rightarrow> map_option (\<lambda>host. (None, host)) (parseHost authority)
      | Some i \<Rightarrow>
          (case parseHost (drop (Suc i) authority) of
             None \<Rightarrow> None
           | Some host \<Rightarrow>
               (let userinfo = take i authority
                in if \<not> validUserinfo userinfo then None
                   else if CHR '':'' \<notin> set userinfo
                     then Some (Some \<lparr>username = userinfo, password = [], passwordSet = False\<rparr>, host)
                     else (case Cut userinfo CHR '':'' of
                             (name, pass) \<Rightarrow>
                               Some (Some \<lparr>username = name, password = pass, passwordSet = True\<rparr>,
                                     host)))))"

definition setPath :: "url \<Rightarrow> string \<Rightarrow> url" where
  "setPath u p = u\<lparr>Path := p, RawPath := (if p = escape p encodePath then [] else p)\<rparr>"

definition empty_url :: url where
  "empty_url =
     \<lparr>Scheme = [], Opaque = [], User = None, Host = [], Path = [], RawPath = [],
      OmitHost = False, ForceQuery = False, RawQuery = [], Fragment = [], RawFragment = []\<rparr>"

text \<open>The function \<open>parse\<close> of \<open>net/url\<close> with \<open>viaRequest\<close> false, on a URL without fragment.\<close>

definition parse_nofrag :: "string \<Rightarrow> url option" where
  "parse_nofrag rawURL =
     (if stringContainsCTLByte rawURL then None
      else if rawURL = ''*'' then Some (empty_url\<lparr>Path := ''*''\<rparr>)
      else (case getScheme rawURL of
              Inl err \<Rightarrow> None
            | Inr (scheme, rest0) \<Rightarrow>
                (let u = empty_url\<lparr>Scheme := ascii_ToLower scheme\<rparr>;
                     force = (HasSuffix rest0 ''?'' \<and> length (filter (\<lambda>c. c = CHR ''?'') rest0) = 1);
                     rest = (if force then butlast rest0 else fst (Cut rest0 CHR ''?''));
                     u = (if force then u\<lparr>ForceQuery := True\<rparr>
                          else u\<lparr>RawQuery := snd (Cut rest0 CHR ''?'')\<rparr>)
                 in if \<not> HasPrefix rest ''/'' \<and> Scheme u \<noteq> [] then Some (u\<lparr>Opaque := rest\<rparr>)
                    else if \<not> HasPrefix rest ''/'' \<and> CHR '':'' \<in> set (fst (Cut rest CHR ''/''))
                      then None
                    else if (Scheme u \<noteq> [] \<or> \<not> HasPrefix rest ''///'') \<and> HasPrefix rest ''//''
                      then (let authority0 = drop 2 rest;
                                authority = takeWhile (\<lambda>c. c \<noteq> CHR ''/'') authority0;
                                rest' = dropWhile (\<lambda>c. c \<noteq> CHR ''/'') authority0
                            in case parseAuthority authority of
                                 None \<Rightarrow> None
                               | Some (user, host) \<Rightarrow>
                                   Some (setPath (u\<lparr>User := user, Host := host\<rparr>) rest'))
                    else if Scheme u \<noteq> [] \<and> HasPrefix rest ''/''
                      then Some (setPath (u\<lparr>OmitHost := True\<rparr>) rest)
                    else Some (setPath u rest))))"

definition plain_url_Parse :: "string \<Rightarrow> url option" where
  "plain_url_Parse rawURL =
     (if list_ex (\<lambda>c. c = CHR ''%'' \<or> c = CHR ''['' \<or> (of_char c :: nat) > 127) rawURL then None
      else (case Cut rawURL CHR ''#'' of
              (u, frag) \<Rightarrow>
                (case parse_nofrag u of
                   None \<Rightarrow> None
                 | Some parsed \<Rightarrow>
                     if frag = [] then Some parsed
                     else Some (parsed\<lparr>Fragment := frag,
                                  RawFragment := (if escape frag encodeFragment = frag then []
                                                  else frag)\<rparr>))))"

definition Userinfo_String :: "Userinfo \<Rightarrow> string" where
  "Userinfo_String ui =
     escape (username ui) encodeUserPassword
     @ (if passwordSet ui then CHR '':'' # escape (password ui) encodeUserPassword else [])"

definition EscapedPath :: "url \<Rightarrow> string" where
  "EscapedPath u =
     (if RawPath u \<noteq> [] \<and> validEncoded (RawPath u) encodePath \<and> RawPath u = Path u
        then RawPath u
      else if Path u = ''*'' then ''*''
      else escape (Path u) encodePath)"

definition EscapedFragment :: "url \<Rightarrow> string" where
  "EscapedFragment u =
     (if RawFragment u \<noteq> [] \<and> validEncoded (RawFragment u) encodeFragment
         \<and> RawFragment u = Fragment u
        then RawFragment u
      else escape (Fragment u) encodeFragment)"

definition plain_url_String :: "url \<Rightarrow> string" where
  "plain_url_String u =
     (let buf = (if Scheme u \<noteq> [] then Scheme u @ '':'' else []);
          buf =
            (if Opaque u \<noteq> [] then buf @ Opaque u
             else
               (let buf =
                      (if Scheme u \<noteq> [] \<or> Host u \<noteq> [] \<or> User u \<noteq> None then
                         (if OmitHost u \<and> Host u = [] \<and> User u = None then buf
                          else
                            (let buf = (if Host u \<noteq> [] \<or> Path u \<noteq> [] \<or> User u \<noteq> None
                                          then buf @ ''//'' else buf);
                                 buf = (case User u of
                                          Some ui \<Rightarrow> buf @ Userinfo_String ui @ ''@''
                                        | None \<Rightarrow> buf)
                             in if Host u \<noteq> [] then buf @ escape (Host u) encodeHost else buf))
                       else buf);
                    path = EscapedPath u;
                    buf = (if path \<noteq> [] \<and> hd path \<noteq> CHR ''/'' \<and> Host u \<noteq> []
                             then buf @ ''/'' else buf);
                    buf = (if buf = [] \<and> CHR '':'' \<in> set (fst (Cut path CHR ''/''))
                             then buf @ ''./'' else buf)
                in buf @ path));
          buf = (if ForceQuery u \<or> RawQuery u \<noteq> [] then buf @ ''?'' @ RawQuery u else buf);
          buf = (if Fragment u \<noteq> [] then buf @ ''#'' @ EscapedFragment u else buf)
      in buf)"

section \<open>Job progress stays within 0..100\<close>

lemma UpdateProgress_range: "0 \<le> Progress (UpdateProgress j p) \<and> Progress (UpdateProgress j p) \<le> 100"
  by (simp add: UpdateProgress_def Let_def)

lemma apply_JobOp_range:
  "0 \<le> Progress j \<and> Progress j \<le> 100 \<Longrightarrow>
   0 \<le> Progress (apply_JobOp j op) \<and> Progress (apply_JobOp j op) \<le> 100"
  by (cases op) (simp_all add: MarkProcessing_def MarkDone_def MarkError_def UpdateProgress_range)

lemma run_JobOps_range:
  "0 \<le> Progress j \<and> Progress j \<le> 100 \<Longrightarrow>
   0 \<le> Progress (run_JobOps j ops) \<and> Progress (run_JobOps j ops) \<le> 100"
  unfolding run_JobOps_def
proof (induction ops arbitrary: j)
  case Nil
  then show ?case by simp
next
  case (Cons op ops)
  from Cons.prems have "0 \<le> Progress (apply_JobOp j op) \<and> Progress (apply_JobOp j op) \<le> 100"
    by (rule apply_JobOp_range)
  then show ?case using Cons.IH by simp
qed

text \<open>
  Claim C10. A new job has progress 0; \<open>UpdateProgress\<close> stores 0 for an argument below 0,
  100 for an argument above 100 and the argument itself otherwise; \<open>MarkDone\<close> stores
  exactly 100; and after any sequence of job methods applied to a new job the progress
  lies in 0..100.
\<close>

theorem Job_progress_within_0_100:
  "Progress (NewJob i u t) = 0
   \<and> Progress (UpdateProgress j p) = (if p < 0 then 0 else if p > 100 then 100 else p)
   \<and> Progress (MarkDone j d t') = 100
   \<and> 0 \<le> Progress (run_JobOps (NewJob i u t) ops)
   \<and> Progress (run_JobOps (NewJob i u t) ops) \<le> 100"
proof -
  have "0 \<le> Progress (NewJob i u t) \<and> Progress (NewJob i u t) \<le> 100"
    by (simp add: NewJob_def)
  from run_JobOps_range [OF this] show ?thesis
    by (simp add: NewJob_def UpdateProgress_def MarkDone_def Let_def)
qed

theorem Job_progress_within_0_100_witness:
  "Progress (UpdateProgress (NewJob ''a'' ''u'' 0) 250) = 100
   \<and> Progress (UpdateProgress (NewJob ''a'' ''u'' 0) (- 7)) = 0
   \<and> Progress (run_JobOps (NewJob ''a'' ''u'' 0)
        [OpMarkProcessing, OpUpdateProgress 250, OpUpdateProgress (- 7), OpMarkError ''e'' 1]) = 0"
  using Job_progress_within_0_100 [of "''a''" "''u''" 0 "NewJob ''a'' ''u'' 0" 250 "''d''" 0 "[]"]
        Job_progress_within_0_100 [of "''a''" "''u''" 0 "NewJob ''a'' ''u'' 0" "- 7" "''d''" 0 "[]"]
  by (simp add: run_JobOps_def NewJob_def UpdateProgress_def MarkProcessing_def MarkError_def Let_def)

section \<open>Enqueue never blocks and admits exactly the capacity\<close>

lemma fst_Enqueue_all_Cons:
  "fst (Enqueue_all d (job # jobs)) =
     fst (Enqueue d job) # fst (Enqueue_all (snd (Enqueue d job)) jobs)"
  by (simp split: prod.splits)

text \<open>With \<open>k\<close> free slots, the first \<open>k\<close> calls succeed and every later call is refused.\<close>

lemma Enqueue_all_free_slots:
  "\<not> stopped d \<Longrightarrow> jobChan_cap d = length (jobChan d) + k \<Longrightarrow>
   fst (Enqueue_all d jobs) =
     replicate (min k (length jobs)) None @ replicate (length jobs - k) (Some ErrQueueFull)"
proof (induction jobs arbitrary: d k)
  case Nil
  then show ?case by simp
next
  case (Cons job jobs)
  show ?case
  proof (cases k)
    case 0
    with Cons.prems have e: "Enqueue d job = (Some ErrQueueFull, d)"
      by (simp add: Enqueue_def)
    from Cons.IH [OF Cons.prems] 0 show ?thesis
      by (simp only: fst_Enqueue_all_Cons e) simp
  next
    case (Suc k')
    let ?d' = "d\<lparr>jobChan := jobChan d @ [job]\<rparr>"
    from Suc Cons.prems have e: "Enqueue d job = (None, ?d')"
      by (simp add: Enqueue_def)
    have "\<not> stopped ?d'" and "jobChan_cap ?d' = length (jobChan ?d') + k'"
      using Suc Cons.prems by simp_all
    from Cons.IH [OF this] Suc show ?thesis
      by (simp only: fst_Enqueue_all_Cons e) simp
  qed
qed

text \<open>
  Claim C2. A new dispatcher has capacity \<open>C\<close> (the queue size given, or 10 when that is
  below 1). Any sequence of \<open>N > C\<close> calls of \<open>Enqueue\<close> with no worker receiving returns:
  the first \<open>C\<close> calls succeed (no error), the other \<open>N - C\<close> return \<open>ErrQueueFull\<close>, so
  exactly \<open>C\<close> succeed. \<open>Enqueue\<close> is a total function of the dispatcher state: every call
  returns at once, with success or an error.
\<close>

theorem Enqueue_exactly_capacity_succeed:
  assumes "d = NewDispatcher w q" and "length jobs > QueueCapacity d"
  shows "fst (Enqueue_all d jobs) =
           replicate (QueueCapacity d) None
           @ replicate (length jobs - QueueCapacity d) (Some ErrQueueFull)
         \<and> length (filter (\<lambda>r. r = None) (fst (Enqueue_all d jobs))) = QueueCapacity d
         \<and> length (filter (\<lambda>r. r = Some ErrQueueFull) (fst (Enqueue_all d jobs)))
             = length jobs - QueueCapacity d
         \<and> QueueCapacity d = (if q < 1 then 10 else nat q)"
proof -
  have ns: "\<not> stopped d" and cap: "jobChan_cap d = length (jobChan d) + QueueCapacity d"
    using assms(1) by (simp_all add: NewDispatcher_def QueueCapacity_def Let_def)
  have m: "min (QueueCapacity d) (length jobs) = QueueCapacity d"
    using assms(2) by simp
  have r: "fst (Enqueue_all d jobs) =
           replicate (QueueCapacity d) None
           @ replicate (length jobs - QueueCapacity d) (Some ErrQueueFull)"
    using Enqueue_all_free_slots [OF ns cap, of jobs] m by simp
  have c: "QueueCapacity d = (if q < 1 then 10 else nat q)"
    using assms(1) by (simp add: NewDispatcher_def QueueCapacity_def Let_def)
  show ?thesis
    by (simp only: r c) simp
qed

theorem Enqueue_exactly_capacity_succeed_witness:
  "QueueCapacity (NewDispatcher 1 2) = 2
   \<and> fst (Enqueue_all (NewDispatcher 1 2)
        [NewJob ''a'' ''u'' 0, NewJob ''b'' ''u'' 0, NewJob ''c'' ''u'' 0, NewJob ''d'' ''u'' 0])
      = [None, None, Some ErrQueueFull, Some ErrQueueFull]"
proof -
  let ?jobs = "[NewJob ''a'' ''u'' 0, NewJob ''b'' ''u'' 0, NewJob ''c'' ''u'' 0, NewJob ''d'' ''u'' 0]"
  have c: "QueueCapacity (NewDispatcher 1 2) = 2"
    by (simp add: NewDispatcher_def QueueCapacity_def)
  have n: "length ?jobs > QueueCapacity (NewDispatcher 1 2)"
    by (simp add: c)
  from Enqueue_exactly_capacity_succeed [OF refl n] c show ?thesis
    by (simp add: numeral_2_eq_2)
qed

section \<open>The forbidden-IP predicate\<close>

lemma To4_IPv4: "To4 (Some (v4InV6Prefix @ [a, b, c, d])) = Some [a, b, c, d]"
  by (simp add: To4_def v4InV6Prefix_def isZeros_def)

lemma To4_4: "To4 (Some [a, b, c, d]) = Some [a, b, c, d]"
  by (simp add: To4_def)

lemma isForbiddenIP_mapped:
  "isForbiddenIP (IPv4 a b c d) =
     list_ex (\<lambda>network. Contains network (Some [a, b, c, d])) forbiddenIPRanges"
  by (simp add: isForbiddenIP_def To4_IPv4 To4_4 IPv4_def Let_def)

lemma isForbiddenIP_v4:
  "isForbiddenIP (Some [a, b, c, d]) =
     list_ex (\<lambda>network. Contains network (Some [a, b, c, d])) forbiddenIPRanges"
  by (simp add: isForbiddenIP_def To4_4 Let_def)

lemma CIDRMask_bytes_numeral:
  "CIDRMask_bytes (numeral k) n =
     (if n \<ge> 8 then 0xff # CIDRMask_bytes (pred_numeral k) (n - 8)
      else (NOT (drop_bit n (0xff :: byte))) # CIDRMask_bytes (pred_numeral k) 0)"
  by (simp add: numeral_eq_Suc)

lemmas ip_eval = isForbiddenIP_def forbiddenIPRanges_def forbiddenIPv6Ranges_def Contains_def
  networkNumberAndMask_def To4_def IPv4_def v4InV6Prefix_def isZeros_def CIDRMask_def
  IPv6_groups_def Let_def CIDRMask_bytes_numeral

lemma forbidden_loopback4: "isForbiddenIP (IPv4 127 0 0 1)"
  by (simp add: ip_eval)

lemma forbidden_private4: "isForbiddenIP (IPv4 10 1 2 3)"
  by (simp add: ip_eval)

lemma forbidden_metadata4: "isForbiddenIP (IPv4 169 254 169 254)"
  by (simp add: ip_eval)

lemma forbidden_loopback6: "isForbiddenIP (IPv6_groups [0, 0, 0, 0, 0, 0, 0, 1])"
  by (simp add: ip_eval)

lemma forbidden_unique_local6: "isForbiddenIP (IPv6_groups [0xfc00, 0, 0, 0, 0, 0, 0, 1])"
  by (simp add: ip_eval)

lemma mapped_10_0_0_1: "IPv6_groups [0, 0, 0, 0, 0, 0xffff, 0x0a00, 1] = IPv4 10 0 0 1"
  by (simp add: IPv6_groups_def IPv4_def v4InV6Prefix_def)

text \<open>
  Claim C5. \<open>isForbiddenIP\<close> is true of 127.0.0.1, 10.1.2.3, 169.254.169.254 (in the
  16-byte form \<open>net.ParseIP\<close> returns), of ::1 and of fc00::1. For every IPv4-mapped
  IPv6 address ::ffff:a.b.c.d (the 16 bytes \<open>IPv4 a b c d\<close>) the result is that of
  the embedded 4-byte address, namely whether one of the IPv4 ranges contains it; so
  ::ffff:10.0.0.1 is forbidden.
\<close>

theorem isForbiddenIP_listed_and_mapped:
  "isForbiddenIP (IPv4 127 0 0 1)
   \<and> isForbiddenIP (IPv4 10 1 2 3)
   \<and> isForbiddenIP (IPv4 169 254 169 254)
   \<and> isForbiddenIP (IPv6_groups [0, 0, 0, 0, 0, 0, 0, 1])
   \<and> isForbiddenIP (IPv6_groups [0xfc00, 0, 0, 0, 0, 0, 0, 1])
   \<and> isForbiddenIP (IPv4 a b c d) = isForbiddenIP (Some [a, b, c, d])
   \<and> isForbiddenIP (IPv4 a b c d) =
        list_ex (\<lambda>network. Contains network (Some [a, b, c, d])) forbiddenIPRanges
   \<and> isForbiddenIP (IPv6_groups [0, 0, 0, 0, 0, 0xffff, 0x0a00, 1])"
proof -
  have e: "isForbiddenIP (IPv6_groups [0, 0, 0, 0, 0, 0xffff, 0x0a00, 1])"
    by (simp only: mapped_10_0_0_1) (simp add: ip_eval)
  have m: "isForbiddenIP (IPv4 a b c d) = isForbiddenIP (Some [a, b, c, d])"
    by (simp only: isForbiddenIP_mapped isForbiddenIP_v4)
  show ?thesis
    by (intro conjI forbidden_loopback4 forbidden_private4 forbidden_metadata4
        forbidden_loopback6 forbidden_unique_local6 m isForbiddenIP_mapped e)
qed

theorem isForbiddenIP_listed_and_mapped_witness:
  "isForbiddenIP (IPv4 192 168 1 1) = isForbiddenIP (Some [192, 168, 1, 1])
   \<and> isForbiddenIP (Some [192, 168, 1, 1])
   \<and> isForbiddenIP (IPv4 8 8 8 8) = isForbiddenIP (Some [8, 8, 8, 8])
   \<and> \<not> isForbiddenIP (Some [8, 8, 8, 8])"
proof -
  have "isForbiddenIP (Some [192, 168, 1, 1])" and "\<not> isForbiddenIP (Some [8, 8, 8, 8])"
    by (simp_all add: ip_eval)
  with isForbiddenIP_listed_and_mapped [of 192 168 1 1]
       isForbiddenIP_listed_and_mapped [of 8 8 8 8]
  show ?thesis by simp
qed

section \<open>Cleanup is confined to the output directory\<close>

lemmas path_eval = Abs_def IsAbs_def HasPrefix_def filepath_Join_def Clean_def

text \<open>
  Claim C9, as stated, fails at the empty path: with working directory \<open>/home/app\<close> and
  output directory \<open>/srv/out\<close>, the absolute form of the empty path is \<open>/home/app\<close>,
  which does not have \<open>/srv/out\<close> as a prefix, and \<open>Cleanup\<close> returns no error.
\<close>

theorem Cleanup_empty_path_counterexample:
  "Abs (Inr ''/home/app'') [] = Inr ''/home/app''
   \<and> Abs (Inr ''/home/app'') (OutputDir (DefaultConfig\<lparr>OutputDir := ''/srv/out''\<rparr>)) = Inr ''/srv/out''
   \<and> \<not> HasPrefix ''/home/app'' ''/srv/out''
   \<and> fst (Cleanup (DefaultConfig\<lparr>OutputDir := ''/srv/out''\<rparr>) (Inr ''/home/app'')
          (files_Remove (Inr ''/home/app'')) [''/srv/out/a.mp4''] []) = None"
  by (simp add: path_eval Cleanup_def)

text \<open>
  Claim C9, amended. For the empty path \<open>Cleanup\<close> returns no error and leaves the file
  system as it is. For a non-empty path: when an absolute form cannot be computed, it
  returns that error and deletes nothing; when the absolute form of the path does not
  have the absolute form of the output directory as a prefix, it returns the error
  "cannot delete file outside output directory" and deletes nothing; when it has, the
  result is that of \<open>os.Remove\<close> on the path.
\<close>

theorem Cleanup_confined_to_output_dir:
  "Cleanup config getwd os_Remove fs [] = (None, fs)
   \<and> (filePath \<noteq> [] \<longrightarrow>
        (\<forall>err. Abs getwd filePath = Inl err \<longrightarrow>
           Cleanup config getwd os_Remove fs filePath = (Some err, fs))
      \<and> (\<forall>absPath err. Abs getwd filePath = Inr absPath \<longrightarrow>
           Abs getwd (OutputDir config) = Inl err \<longrightarrow>
           Cleanup config getwd os_Remove fs filePath = (Some err, fs))
      \<and> (\<forall>absPath absOutputDir.
           Abs getwd filePath = Inr absPath \<longrightarrow>
           Abs getwd (OutputDir config) = Inr absOutputDir \<longrightarrow>
           (\<not> HasPrefix absPath absOutputDir \<longrightarrow>
              Cleanup config getwd os_Remove fs filePath
                = (Some ''cannot delete file outside output directory'', fs))
         \<and> (HasPrefix absPath absOutputDir \<longrightarrow>
              Cleanup config getwd os_Remove fs filePath = os_Remove fs filePath)))"
  by (simp add: Cleanup_def)

theorem Cleanup_confined_to_output_dir_witness:
  "Cleanup (DefaultConfig\<lparr>OutputDir := ''/srv/out''\<rparr>) (Inr ''/home/app'')
      (files_Remove (Inr ''/home/app'')) [''/srv/out/a.mp4'', ''/etc/passwd'']
      ''/srv/out/../../etc/passwd''
     = (Some ''cannot delete file outside output directory'', [''/srv/out/a.mp4'', ''/etc/passwd''])
   \<and> Cleanup (DefaultConfig\<lparr>OutputDir := ''/srv/out''\<rparr>) (Inr ''/home/app'')
      (files_Remove (Inr ''/home/app'')) [''/srv/out/a.mp4'', ''/etc/passwd'']
      ''/srv/out/a.mp4''
     = (None, [''/etc/passwd''])
   \<and> Cleanup DefaultConfig (Inl ''getwd: no such file or directory'')
      (files_Remove (Inl ''getwd: no such file or directory'')) [''/srv/out/a.mp4'']
      ''tmp/a.mp4''
     = (Some ''getwd: no such file or directory'', [''/srv/out/a.mp4''])"
proof -
  let ?cfg = "DefaultConfig\<lparr>OutputDir := ''/srv/out''\<rparr>"
  let ?wd = "Inr ''/home/app'' :: error + string"
  let ?nowd = "Inl ''getwd: no such file or directory'' :: error + string"
  let ?fs = "[''/srv/out/a.mp4'', ''/etc/passwd'']"
  have o: "Abs ?wd (OutputDir ?cfg) = Inr ''/srv/out''"
    by (simp add: path_eval)
  have a1: "Abs ?wd ''/srv/out/../../etc/passwd'' = Inr ''/etc/passwd''"
    by (simp add: path_eval)
  have a2: "Abs ?wd ''/srv/out/a.mp4'' = Inr ''/srv/out/a.mp4''"
    by (simp add: path_eval)
  have a3: "Abs ?nowd ''tmp/a.mp4'' = Inl ''getwd: no such file or directory''"
    by (simp add: path_eval)
  have p1: "\<not> HasPrefix ''/etc/passwd'' ''/srv/out''"
    and p2: "HasPrefix ''/srv/out/a.mp4'' ''/srv/out''"
    by (simp_all add: HasPrefix_def)
  have r: "files_Remove ?wd ?fs ''/srv/out/a.mp4'' = (None, [''/etc/passwd''])"
    by (simp add: files_Remove_def a2)
  from Cleanup_confined_to_output_dir
         [of ?cfg ?wd "files_Remove ?wd" ?fs "''/srv/out/../../etc/passwd''"] o a1 p1
  have w1: "Cleanup ?cfg ?wd (files_Remove ?wd) ?fs ''/srv/out/../../etc/passwd''
              = (Some ''cannot delete file outside output directory'', ?fs)"
    by simp
  from Cleanup_confined_to_output_dir
         [of ?cfg ?wd "files_Remove ?wd" ?fs "''/srv/out/a.mp4''"] o a2 p2 r
  have w2: "Cleanup ?cfg ?wd (files_Remove ?wd) ?fs ''/srv/out/a.mp4'' = (None, [''/etc/passwd''])"
    by simp
  from Cleanup_confined_to_output_dir
         [of DefaultConfig ?nowd "files_Remove ?nowd" "[''/srv/out/a.mp4'']" "''tmp/a.mp4''"] a3
  have w3: "Cleanup DefaultConfig ?nowd (files_Remove ?nowd) [''/srv/out/a.mp4''] ''tmp/a.mp4''
              = (Some ''getwd: no such file or directory'', [''/srv/out/a.mp4''])"
    by simp
  from w1 w2 w3 show ?thesis by (intro conjI)
qed

section \<open>The stdout scanner\<close>

lemmas rx_eval = group1_def group2_def progressRegex_def filenameRegex_def
  alreadyDownloadedRegex_def mergerRegex_def moveFileRegex_def ffmpegRegex_def lit_def push_def
  dquote_def
lemmas trim_eval = TrimSpace_def leadingSpace_def trailingSpace_def asciiSpace_def
  unicodeSpaces_def HasPrefix_def HasSuffix_def








section \<open>The matcher on literals and greedy repetition\<close>

lemma rmatch_lit:
  "rmatch (lit l @ r) s acc caps =
     (if HasPrefix s l
        then rmatch r (drop (length l) s) (map_option (\<lambda>a. rev l @ a) acc) caps
        else None)"
proof (induction l arbitrary: s acc)
  case Nil
  have "map_option ((@) []) acc = acc" by (cases acc) simp_all
  then show ?case by (simp add: lit_def HasPrefix_def)
next
  case (Cons c l)
  show ?case
  proof (cases s)
    case Nil
    then show ?thesis by (simp add: lit_def HasPrefix_def)
  next
    case (Cons x xs)
    have "map_option (\<lambda>a. rev l @ a) (push c acc) = map_option (\<lambda>a. rev (c # l) @ a) acc"
      by (cases acc) (simp_all add: push_def)
    with Cons.IH [of xs "push c acc"] Cons show ?thesis
      by (simp add: lit_def HasPrefix_def)
  qed
qed

lemma rmatch_lit_end:
  "rmatch (lit l) s acc caps = (if HasPrefix s l then Some (rev caps) else None)"
  using rmatch_lit [of l "[]" s acc caps] by simp

lemma rmatch_star_backtrack:
  assumes "\<And>n. 0 < n \<Longrightarrow> n \<le> length u \<Longrightarrow>
             rmatch r (drop n u) (Some (rev (take n u) @ a)) caps = None"
  shows "rmatch (Star k # r) u (Some a) caps = rmatch r u (Some a) caps"
  using assms
proof (induction u arbitrary: a)
  case Nil
  then show ?case by simp
next
  case (Cons x xs)
  have tail: "rmatch r (drop n xs) (Some (rev (take n xs) @ x # a)) caps = None"
    if "0 < n" "n \<le> length xs" for n
    using Cons.prems [of "Suc n"] that by simp
  have one: "rmatch r xs (Some (x # a)) caps = None"
    using Cons.prems [of 1] by simp
  have "rmatch (Star k # r) xs (Some (x # a)) caps = None"
    using Cons.IH [of "x # a"] tail one by simp
  then show ?case by (simp add: push_def)
qed

lemma rmatch_star_greedy:
  assumes "\<forall>c\<in>set t. in_cls k c"
    and "rmatch r u (Some (rev t @ a)) caps = Some m"
    and "\<And>n. 0 < n \<Longrightarrow> n \<le> length u \<Longrightarrow>
           rmatch r (drop n u) (Some (rev (take n u) @ rev t @ a)) caps = None"
  shows "rmatch (Star k # r) (t @ u) (Some a) caps = Some m"
  using assms
proof (induction t arbitrary: a)
  case Nil
  then show ?case using rmatch_star_backtrack [of u r a caps k] by simp
next
  case (Cons x t)
  have "rmatch (Star k # r) (t @ u) (Some (x # a)) caps = Some m"
    using Cons.IH [of "x # a"] Cons.prems by simp
  with Cons.prems(1) show ?case by (simp add: push_def)
qed

lemma rmatch_plus_greedy:
  assumes "t \<noteq> []" and "\<forall>c\<in>set t. in_cls k c"
    and "rmatch r u (Some (rev t)) caps = Some m"
    and "\<And>n. 0 < n \<Longrightarrow> n \<le> length u \<Longrightarrow>
           rmatch r (drop n u) (Some (rev (take n u) @ rev t)) caps = None"
  shows "rmatch (Plus k # r) (t @ u) (Some []) caps = Some m"
proof -
  from assms(1) obtain x t' where t: "t = x # t'" by (cases t) auto
  have "rmatch (Star k # r) (t' @ u) (Some [x]) caps = Some m"
    using rmatch_star_greedy [of t' k r u "[x]" caps m] assms t by simp
  with assms(2) t show ?thesis by (simp add: push_def)
qed


text \<open>A group \<open>(.+)\<close> at the end of a pattern takes the rest of the line.\<close>

lemma rmatch_rest_of_line:
  assumes "X \<noteq> []" and "CHR 0x0A \<notin> set X"
  shows "rmatch (lit P @ [Open, Plus AnyChar, Close]) (P @ X) None [] = Some [X]"
proof -
  have "rmatch (Plus AnyChar # [Close]) (X @ []) (Some []) [] = Some [X]"
    using assms by (intro rmatch_plus_greedy) auto
  then show ?thesis
    by (simp add: rmatch_lit HasPrefix_def)
qed


lemma length_moveFiles_sep: "length moveFiles_sep = 6"
  by (simp add: moveFiles_sep_def dquote_def)






section \<open>The integer the progress callback receives\<close>

























section \<open>Classification of a failed run\<close>

lemma length_truncate: "length (truncate_string s n) \<le> n + 3"
  by (simp add: truncate_string_def)

lemma truncate_short: "length s \<le> n \<Longrightarrow> truncate_string s n = s"
  by (simp add: truncate_string_def)

lemma truncate_take: "take n (truncate_string s n) = take n s"
  by (simp add: truncate_string_def)

lemma Download_wait_failure:
  assumes "MkdirAll_err env = None" "StdoutPipe_err env = None" "StderrPipe_err env = None"
    "Start_err env = None" "Wait_err env = Some e"
  shows "snd (Download config env cb) =
           Inl (wait_failure (ctx_Err env) (concat (map (\<lambda>l. l @ [CHR 0x0A]) (stderr_lines env))))"
  using assms by (simp add: Download_def Let_def)

lemmas contains_eval = strings_Contains_def HasPrefix_def

text \<open>
  Claim C6, as stated, fails on both drivers. The job driver has no case for
  \<open>private\<close> or \<open>filesize\<close> in stderr: it returns the generic error. The simple driver has
  no case for a cancelled context: it returns the generic error.
\<close>

theorem failure_classification_counterexample:
  "strings_Contains (''ERROR: this video is private'' @ [CHR 0x0A]) ''private''
   \<and> snd (Download DefaultConfig
            (plain_run [] [''ERROR: this video is private''] (Some ''exit status 1'') None) True)
       = Inl (''yt-dlp error: ERROR: this video is private'' @ [CHR 0x0A])
   \<and> strings_Contains (''ERROR: larger than max-filesize'' @ [CHR 0x0A]) ''filesize''
   \<and> snd (Download DefaultConfig
            (plain_run [] [''ERROR: larger than max-filesize''] (Some ''exit status 1'') None) True)
       = Inl (''yt-dlp error: ERROR: larger than max-filesize'' @ [CHR 0x0A])
   \<and> simple_Download_failure (Some Canceled) ''signal: killed'' = ''yt-dlp error: signal: killed''"
  by (simp add: Download_def plain_run_def scan_stdout_def wait_failure_def
      simple_Download_failure_def truncate_string_def contains_eval)

text \<open>
  Claim C6, amended. When the subprocess exits with failure, the job driver returns:
  the timeout error when the deadline expired; else the canceled error when the
  context was cancelled; else the video-unavailable error when stderr contains
  \<open>Video unavailable\<close>; else the invalid-URL error when stderr contains
  \<open>is not a valid URL\<close>; else a generic error that starts with \<open>yt-dlp error: \<close> and
  carries stderr. The simple driver looks at the combined output first:
  \<open>Video unavailable\<close> gives the video-unavailable error; else \<open>duration<\<close> with
  \<open>skipping\<close> the duration error; else \<open>filesize\<close> the size error; else an expired
  deadline the timeout error; else a generic error that carries the output cut to 200
  bytes, with \<open>...\<close> after a cut. The simple handler maps a message that contains
  \<open>unavailable\<close> or \<open>private\<close>, and neither \<open>duration\<close>, \<open>filesize\<close> nor \<open>file size\<close>, to
  \<open>VIDEO_UNAVAILABLE\<close>.
\<close>

theorem failure_classification_by_driver:
  "(MkdirAll_err env = None \<and> StdoutPipe_err env = None \<and> StderrPipe_err env = None
      \<and> Start_err env = None \<and> Wait_err env = Some e \<longrightarrow>
      snd (Download config env cb) =
        Inl (wait_failure (ctx_Err env) (concat (map (\<lambda>l. l @ [CHR 0x0A]) (stderr_lines env)))))
   \<and> wait_failure (Some DeadlineExceeded) s = ''download timed out''
   \<and> wait_failure (Some Canceled) s = ''download was canceled''
   \<and> (strings_Contains s ''Video unavailable'' \<longrightarrow>
        wait_failure None s = ''video is unavailable or private'')
   \<and> (\<not> strings_Contains s ''Video unavailable'' \<and> strings_Contains s ''is not a valid URL'' \<longrightarrow>
        wait_failure None s = ''invalid video URL'')
   \<and> (\<not> strings_Contains s ''Video unavailable'' \<and> \<not> strings_Contains s ''is not a valid URL'' \<longrightarrow>
        wait_failure None s = ''yt-dlp error: '' @ s)
   \<and> (strings_Contains s ''Video unavailable'' \<longrightarrow>
        simple_Download_failure c s = ''video is unavailable or private'')
   \<and> (\<not> strings_Contains s ''Video unavailable''
        \<and> strings_Contains s ''duration<'' \<and> strings_Contains s ''skipping'' \<longrightarrow>
        simple_Download_failure c s = ''video exceeds maximum duration limit'')
   \<and> (\<not> strings_Contains s ''Video unavailable''
        \<and> \<not> (strings_Contains s ''duration<'' \<and> strings_Contains s ''skipping'')
        \<and> strings_Contains s ''filesize'' \<longrightarrow>
        simple_Download_failure c s = ''video exceeds maximum file size limit'')
   \<and> (\<not> strings_Contains s ''Video unavailable''
        \<and> \<not> (strings_Contains s ''duration<'' \<and> strings_Contains s ''skipping'')
        \<and> \<not> strings_Contains s ''filesize'' \<longrightarrow>
        simple_Download_failure c s =
          (if c = Some DeadlineExceeded then ''download timed out''
           else ''yt-dlp error: '' @ truncate_string s 200))
   \<and> length (truncate_string s 200) \<le> 203
   \<and> take 200 (truncate_string s 200) = take 200 s
   \<and> (length s \<le> 200 \<longrightarrow> truncate_string s 200 = s)
   \<and> (\<not> strings_Contains m ''duration'' \<and> \<not> strings_Contains m ''filesize''
        \<and> \<not> strings_Contains m ''file size''
        \<and> (strings_Contains m ''unavailable'' \<or> strings_Contains m ''private'') \<longrightarrow>
        handleDownloadError m = ''VIDEO_UNAVAILABLE'')"
  using Download_wait_failure [of env e config cb] length_truncate [of s 200]
    truncate_short [of s 200]
  by (simp add: wait_failure_def simple_Download_failure_def handleDownloadError_def
      truncate_take)

theorem failure_classification_by_driver_witness:
  "snd (Download DefaultConfig
          (plain_run [] [''ERROR: x is not a valid URL''] (Some ''exit status 1'') None) True)
     = Inl ''invalid video URL''
   \<and> snd (Download DefaultConfig
          (plain_run [] [''ERROR: Video unavailable''] (Some ''signal: killed'')
             (Some DeadlineExceeded)) True)
     = Inl ''download timed out''
   \<and> simple_Download_failure (Some DeadlineExceeded) ''ERROR: Video unavailable''
     = ''video is unavailable or private''
   \<and> simple_Download_failure None ''does not pass filter (duration<1800), skipping ..''
     = ''video exceeds maximum duration limit''
   \<and> handleDownloadError ''this video is private'' = ''VIDEO_UNAVAILABLE''"
proof -
  let ?e1 = "plain_run [] [''ERROR: x is not a valid URL''] (Some ''exit status 1'') None"
  let ?e2 = "plain_run [] [''ERROR: Video unavailable''] (Some ''signal: killed'')
               (Some DeadlineExceeded)"
  have c1: "\<not> strings_Contains (''ERROR: x is not a valid URL'' @ [CHR 0x0A]) ''Video unavailable''"
    and c2: "strings_Contains (''ERROR: x is not a valid URL'' @ [CHR 0x0A]) ''is not a valid URL''"
    and c3: "strings_Contains ''ERROR: Video unavailable'' ''Video unavailable''"
    by (simp_all add: contains_eval)
  have c4: "\<not> strings_Contains ''does not pass filter (duration<1800), skipping ..'' ''Video unavailable''"
    and c5: "strings_Contains ''does not pass filter (duration<1800), skipping ..'' ''duration<''"
    and c6: "strings_Contains ''does not pass filter (duration<1800), skipping ..'' ''skipping''"
    by (simp_all add: contains_eval)
  have c7: "\<not> strings_Contains ''this video is private'' ''duration''"
    and c8: "\<not> strings_Contains ''this video is private'' ''filesize''"
    and c9: "\<not> strings_Contains ''this video is private'' ''file size''"
    and c10: "strings_Contains ''this video is private'' ''private''"
    by (simp_all add: contains_eval)
  from failure_classification_by_driver
         [of ?e1 "''exit status 1''" DefaultConfig True
             "''ERROR: x is not a valid URL'' @ [CHR 0x0A]" None "[]"] c1 c2
  have w1: "snd (Download DefaultConfig ?e1 True) = Inl ''invalid video URL''"
    by (simp add: plain_run_def)
  from failure_classification_by_driver
         [of ?e2 "''signal: killed''" DefaultConfig True "''ERROR: Video unavailable'' @ [CHR 0x0A]"
             None "[]"]
  have w2: "snd (Download DefaultConfig ?e2 True) = Inl ''download timed out''"
    by (simp add: plain_run_def)
  from failure_classification_by_driver
         [of ?e1 "''exit status 1''" DefaultConfig True "''ERROR: Video unavailable''"
             "Some DeadlineExceeded" "[]"] c3
  have w3: "simple_Download_failure (Some DeadlineExceeded) ''ERROR: Video unavailable''
              = ''video is unavailable or private''"
    by blast
  from failure_classification_by_driver
         [of ?e1 "''exit status 1''" DefaultConfig True
             "''does not pass filter (duration<1800), skipping ..''" None "[]"] c4 c5 c6
  have w4: "simple_Download_failure None ''does not pass filter (duration<1800), skipping ..''
              = ''video exceeds maximum duration limit''"
    by blast
  from failure_classification_by_driver
         [of ?e1 "''exit status 1''" DefaultConfig True "[]" None "''this video is private''"]
       c7 c8 c9 c10
  have w5: "handleDownloadError ''this video is private'' = ''VIDEO_UNAVAILABLE''"
    by blast
  from w1 w2 w3 w4 w5 show ?thesis by (intro conjI)
qed


section \<open>Progress 100 and the status Done\<close>

lemma progressCb_snoc:
  "progressCb jl (cs @ [(p, s)]) =
     (UpdateProgress (fst (progressCb jl cs)) p,
      snd (progressCb jl cs) @ [RepoUpdateProgress (ID (fst (progressCb jl cs))) p])"
  by (induction jl cs rule: progressCb.induct) simp_all

lemma Download_success_calls:
  "Download config env True = (cs, Inr r) \<Longrightarrow> \<exists>cs'. cs = cs' @ [(100, ''complete'')]"
  by (auto simp: Download_def Let_def split: option.splits if_splits list.splits)

lemma Status_MarkError: "Status (MarkError j e t) = JobStatusError"
  by (simp add: MarkError_def)

lemma MarkDone_fields:
  "Status (MarkDone j u t) = JobStatusDone \<and> Progress (MarkDone j u t) = 100
   \<and> DownloadURL (MarkDone j u t) = u \<and> CompletedAt (MarkDone j u t) = Some t"
  by (simp add: MarkDone_def)

lemma ProcessJob_Done_100:
  "Status (fst (ProcessJob config env r2 now job0)) = JobStatusDone \<Longrightarrow>
   Progress (fst (ProcessJob config env r2 now job0)) = 100"
  by (auto simp: ProcessJob_def Let_def MarkDone_def MarkError_def
      split: prod.splits sum.splits option.splits)

lemma ProcessJob_downloaded_100:
  assumes "snd (Download config env True) = Inr r"
  shows "Progress (fst (ProcessJob config env r2 now job0)) = 100"
proof -
  obtain cs where d: "Download config env True = (cs, Inr r)"
    using assms by (cases "Download config env True") simp
  then obtain cs' where cs: "cs = cs' @ [(100, ''complete'')]"
    using Download_success_calls by blast
  have p: "Progress (fst (progressCb jl cs)) = 100" for jl
    by (simp add: cs progressCb_snoc UpdateProgress_def)
  show ?thesis
    using p [of "(MarkProcessing job0, [RepoUpdate (MarkProcessing job0)])"]
    by (cases r)
      (auto simp: ProcessJob_def d Let_def MarkDone_def MarkError_def
        split: prod.splits sum.splits option.splits)
qed

text \<open>
  Claim C1, as stated, fails: a job whose download completes has its progress set to
  100 by the completion call of the progress callback while it is still processing,
  and when the upload then fails the job is transitioned to Error with progress 100.
\<close>

theorem progress_100_with_Error_counterexample:
  "Progress (fst (ProcessJob DefaultConfig
       (plain_run [''[download] Destination: /tmp/170_abc.mp4''] [] None None)
       (Some r2_upload_fails) 7 (NewJob ''job-1'' ''https://youtu.be/abc'' 3))) = 100
   \<and> Status (fst (ProcessJob DefaultConfig
       (plain_run [''[download] Destination: /tmp/170_abc.mp4''] [] None None)
       (Some r2_upload_fails) 7 (NewJob ''job-1'' ''https://youtu.be/abc'' 3))) = JobStatusError"
  by (simp add: ProcessJob_def Download_def plain_run_def scan_stdout_def scan_line_def
      r2_upload_fails_def NewJob_def MarkProcessing_def MarkError_def UpdateProgress_def
      last_capture_def rx_eval trim_eval Let_def)

text \<open>
  Claim C1, amended. \<open>MarkDone\<close> sets the status Done and the progress 100 together,
  and a job that \<open>ProcessJob\<close> leaves Done has progress 100. The converse does not
  hold: whenever the download succeeds the progress is 100 at the end of \<open>ProcessJob\<close>,
  whether the job ends Done or, after a failed upload or a failed URL signing, Error.
\<close>

theorem Done_implies_progress_100:
  "Status (MarkDone j u t) = JobStatusDone \<and> Progress (MarkDone j u t) = 100
   \<and> (Status (fst (ProcessJob config env r2 now job0)) = JobStatusDone \<longrightarrow>
        Progress (fst (ProcessJob config env r2 now job0)) = 100)
   \<and> (\<forall>r. snd (Download config env True) = Inr r \<longrightarrow>
        Progress (fst (ProcessJob config env r2 now job0)) = 100)"
  using MarkDone_fields [of j u t] ProcessJob_Done_100 [of config env r2 now job0]
    ProcessJob_downloaded_100 [of config env _ r2 now job0]
  by blast

theorem Done_implies_progress_100_witness:
  "Status (fst (ProcessJob DefaultConfig
       (plain_run [''[download] Destination: /tmp/170_abc.mp4''] [] None None)
       (Some r2_works) 7 (NewJob ''job-1'' ''https://youtu.be/abc'' 3))) = JobStatusDone
   \<and> Progress (fst (ProcessJob DefaultConfig
       (plain_run [''[download] Destination: /tmp/170_abc.mp4''] [] None None)
       (Some r2_works) 7 (NewJob ''job-1'' ''https://youtu.be/abc'' 3))) = 100"
proof -
  let ?p = "ProcessJob DefaultConfig
       (plain_run [''[download] Destination: /tmp/170_abc.mp4''] [] None None)
       (Some r2_works) 7 (NewJob ''job-1'' ''https://youtu.be/abc'' 3)"
  have s: "Status (fst ?p) = JobStatusDone"
    by (simp add: ProcessJob_def Download_def plain_run_def scan_stdout_def scan_line_def
        r2_works_def NewJob_def MarkProcessing_def MarkDone_def UpdateProgress_def
        last_capture_def rx_eval trim_eval Let_def)
  with Done_implies_progress_100 [of _ _ _ DefaultConfig
       "plain_run [''[download] Destination: /tmp/170_abc.mp4''] [] None None"
       "Some r2_works" 7 "NewJob ''job-1'' ''https://youtu.be/abc'' 3"]
  show ?thesis by blast
qed


section \<open>What the URL validator of the job API accepts\<close>

lemmas url_eval = plain_url_Parse_def parse_nofrag_def getScheme_def Cut_def
  stringContainsCTLByte_def ascii_ToLower_def parseAuthority_def parseHost_def setPath_def
  empty_url_def escape_def shouldEscape_def is_alnum_def validOptionalPort_def validUserinfo_def
  plain_url_String_def EscapedPath_def EscapedFragment_def validEncoded_def Userinfo_String_def
  upperhex_def HasPrefix_def HasSuffix_def Let_def

lemmas validate_eval = ValidateURL_def Hostname_def isDomainAllowed_def parentDomain_def
  lookup_def allowedDomains_def

text \<open>
  Claim C3. When \<open>ValidateURL\<close> returns no error, the trimmed input parses, the scheme
  of the parsed URL is http or https, it has no userinfo, its host name is not empty,
  and the lower-cased host name is in the allowlist, or it has more than two labels
  and the domain of its last two labels is in the allowlist. This holds whatever
  \<open>url.Parse\<close> and \<open>strings.ToLower\<close> compute and whatever the allowlist holds.
\<close>

theorem ValidateURL_accepts_only_allowlisted:
  assumes "ValidateURL url_Parse ToLower allowed u = None"
  shows "\<exists>p. url_Parse (TrimSpace u) = Some p
           \<and> (Scheme p = ''http'' \<or> Scheme p = ''https'')
           \<and> User p = None
           \<and> Hostname p \<noteq> []
           \<and> (lookup allowed (ToLower (Hostname p))
              \<or> (length (Split (ToLower (Hostname p)) CHR ''.'') > 2
                 \<and> lookup allowed (parentDomain (Split (ToLower (Hostname p)) CHR ''.''))))"
proof (cases "url_Parse (TrimSpace u)")
  case None
  with assms show ?thesis
    by (simp add: ValidateURL_def Let_def split: if_splits)
next
  case (Some p)
  with assms have "(Scheme p = ''http'' \<or> Scheme p = ''https'') \<and> User p = None
      \<and> Hostname p \<noteq> [] \<and> isDomainAllowed allowed (ToLower (Hostname p))"
    by (auto simp: ValidateURL_def Let_def split: if_splits)
  then show ?thesis
    using Some by (auto simp: isDomainAllowed_def Let_def split: if_splits)
qed

theorem ValidateURL_accepts_only_allowlisted_witness:
  "ValidateURL plain_url_Parse ascii_ToLower allowedDomains
      ''  https://Music.YouTube.com:443/watch?v=abc '' = None
   \<and> (\<exists>p. plain_url_Parse (TrimSpace ''  https://Music.YouTube.com:443/watch?v=abc '') = Some p
        \<and> Scheme p = ''https'' \<and> User p = None \<and> Hostname p = ''Music.YouTube.com''
        \<and> \<not> lookup allowedDomains ''music.youtube.com''
        \<and> lookup allowedDomains (parentDomain (Split ''music.youtube.com'' CHR ''.'')))"
proof -
  let ?u = "''  https://Music.YouTube.com:443/watch?v=abc ''"
  have v: "ValidateURL plain_url_Parse ascii_ToLower allowedDomains ?u = None"
    by (simp add: validate_eval trim_eval url_eval)
  have t: "TrimSpace ?u = ''https://Music.YouTube.com:443/watch?v=abc''"
    by (simp add: trim_eval)
  have p: "plain_url_Parse ''https://Music.YouTube.com:443/watch?v=abc'' =
             Some (empty_url\<lparr>Scheme := ''https'', Host := ''Music.YouTube.com:443'',
                              Path := ''/watch'', RawQuery := ''v=abc''\<rparr>)"
    by (simp add: url_eval)
  have h: "Hostname (empty_url\<lparr>Scheme := ''https'', Host := ''Music.YouTube.com:443'',
                              Path := ''/watch'', RawQuery := ''v=abc''\<rparr>) = ''Music.YouTube.com''"
    by (simp add: Hostname_def url_eval)
  have l: "\<not> lookup allowedDomains ''music.youtube.com''"
    by (simp add: lookup_def allowedDomains_def)
  from ValidateURL_accepts_only_allowlisted [OF v]
  obtain q where q: "plain_url_Parse (TrimSpace ?u) = Some q" "Scheme q = ''http'' \<or> Scheme q = ''https''"
      "User q = None" "Hostname q \<noteq> []"
      "lookup allowedDomains (ascii_ToLower (Hostname q))
       \<or> (length (Split (ascii_ToLower (Hostname q)) CHR ''.'') > 2
          \<and> lookup allowedDomains (parentDomain (Split (ascii_ToLower (Hostname q)) CHR ''.'')))"
    by blast
  from q(1) have qe: "q = empty_url\<lparr>Scheme := ''https'', Host := ''Music.YouTube.com:443'',
                              Path := ''/watch'', RawQuery := ''v=abc''\<rparr>"
    by (simp only: t p option.inject)
  have lo: "ascii_ToLower ''Music.YouTube.com'' = ''music.youtube.com''"
    by (simp add: ascii_ToLower_def)
  from q(5) l have "lookup allowedDomains (parentDomain (Split ''music.youtube.com'' CHR ''.''))"
    by (simp only: qe h lo) simp
  moreover have "Scheme q = ''https''" by (simp add: qe empty_url_def)
  ultimately show ?thesis
    using v q(1) q(3) l h qe by auto
qed

section \<open>Shell characters in URLs\<close>

lemma MatchString_suspicious:
  "MatchString suspicious s = (\<exists>c\<in>set s. c \<in> set suspicious_chars)"
  unfolding MatchString_def suspicious_def
  by (induction s) (simp_all add: push_def)

text \<open>
  Claim C4, as stated, fails for the validator of the job API: \<open>ValidateURL\<close> has no
  check of the characters of the URL, and accepts a YouTube URL with an ampersand in
  its query.
\<close>

theorem ValidateURL_accepts_ampersand_counterexample:
  "CHR ''&'' \<in> set ''https://www.youtube.com/watch?v=abc&t=10''
   \<and> CHR ''&'' \<in> set suspicious_chars
   \<and> ValidateURL plain_url_Parse ascii_ToLower allowedDomains
        ''https://www.youtube.com/watch?v=abc&t=10'' = None"
  by (simp add: suspicious_chars_def validate_eval trim_eval url_eval)

text \<open>
  Claim C4, amended. The validator of the simple handler rejects every URL that
  contains a semicolon, an ampersand, a bar, a dollar sign, a backquote or a backslash,
  whatever \<open>url.Parse\<close> and \<open>strings.ToLower\<close> compute; and it is the last of its checks:
  a URL it accepts contains none of them.
\<close>

theorem Handler_validateURL_rejects_shell_chars:
  "((\<exists>c\<in>set u. c \<in> set suspicious_chars) \<longrightarrow> Handler_validateURL url_Parse ToLower u \<noteq> None)
   \<and> (Handler_validateURL url_Parse ToLower u = None \<longrightarrow> (\<forall>c\<in>set u. c \<notin> set suspicious_chars))"
  by (auto simp: Handler_validateURL_def Let_def MatchString_suspicious
      split: option.splits if_splits)

theorem Handler_validateURL_rejects_shell_chars_witness:
  "Handler_validateURL plain_url_Parse ascii_ToLower ''https://www.youtube.com/watch?v=abc&t=10''
     \<noteq> None
   \<and> Handler_validateURL plain_url_Parse ascii_ToLower ''https://www.youtube.com/watch?v=abc''
     = None
   \<and> CHR ''&'' \<notin> set ''https://www.youtube.com/watch?v=abc''"
proof -
  have a: "\<exists>c\<in>set ''https://www.youtube.com/watch?v=abc&t=10''. c \<in> set suspicious_chars"
    by (simp add: suspicious_chars_def)
  have b: "Handler_validateURL plain_url_Parse ascii_ToLower ''https://www.youtube.com/watch?v=abc''
             = None"
    by (simp add: Handler_validateURL_def handler_allowedDomains_def TrimPrefix_def
        MatchString_suspicious suspicious_chars_def url_eval)
  have c: "CHR ''&'' \<in> set suspicious_chars"
    by (simp add: suspicious_chars_def)
  from Handler_validateURL_rejects_shell_chars
         [of "''https://www.youtube.com/watch?v=abc&t=10''" plain_url_Parse ascii_ToLower] a
  have w1: "Handler_validateURL plain_url_Parse ascii_ToLower
              ''https://www.youtube.com/watch?v=abc&t=10'' \<noteq> None"
    by blast
  from Handler_validateURL_rejects_shell_chars
         [of "''https://www.youtube.com/watch?v=abc''" plain_url_Parse ascii_ToLower] b c
  have w3: "CHR ''&'' \<notin> set ''https://www.youtube.com/watch?v=abc''"
    by blast
  from w1 b w3 show ?thesis by (intro conjI)
qed

section \<open>Normalization is not idempotent\<close>

text \<open>
  Claim C7 fails on the code: \<open>NormalizeURL\<close> removes one trailing slash. A path that
  ends in two slashes keeps one after the first normalization and loses it in the
  second, so the two results differ.
\<close>

theorem NormalizeURL_not_idempotent:
  "NormalizeURL plain_url_Parse plain_url_String ''https://www.youtube.com/a//''
     = ''https://www.youtube.com/a/''
   \<and> NormalizeURL plain_url_Parse plain_url_String
       (NormalizeURL plain_url_Parse plain_url_String ''https://www.youtube.com/a//'')
     = ''https://www.youtube.com/a''"
proof -
  have 1: "NormalizeURL plain_url_Parse plain_url_String ''https://www.youtube.com/a//''
             = ''https://www.youtube.com/a/''"
    by (simp add: NormalizeURL_def trim_eval url_eval)
  have 2: "NormalizeURL plain_url_Parse plain_url_String ''https://www.youtube.com/a/''
             = ''https://www.youtube.com/a''"
    by (simp add: NormalizeURL_def trim_eval url_eval)
  show ?thesis by (simp only: 1 2 simp_thms)
qed


theorem NormalizeURL_not_idempotent_witness:
  "NormalizeURL plain_url_Parse plain_url_String
       (NormalizeURL plain_url_Parse plain_url_String ''https://www.youtube.com/a//'')
     \<noteq> NormalizeURL plain_url_Parse plain_url_String ''https://www.youtube.com/a//''"
proof -
  from NormalizeURL_not_idempotent
  have 1: "NormalizeURL plain_url_Parse plain_url_String ''https://www.youtube.com/a//''
             = ''https://www.youtube.com/a/''"
    and 2: "NormalizeURL plain_url_Parse plain_url_String
              (NormalizeURL plain_url_Parse plain_url_String ''https://www.youtube.com/a//'')
             = ''https://www.youtube.com/a''"
    by blast+
  show ?thesis
    unfolding 2 unfolding 1 by simp
qed

end
